theory Spec2Isabelle
  imports Main "HOL-Library.Word" "HOL-Library.Signed_Division"
begin

unbundle bit_operations_syntax

section \<open>The NPCM750 Encoding Compression Engine (ECE) drivers\<close>

text \<open>
  The repository carries two drivers for the same engine:
  \<^item> \<^verbatim>\<open>drivers/video/compression/npcm750_ece.c\<close>, called the \<^emph>\<open>video\<close> driver below
    (functions \<^verbatim>\<open>ece_...\<close>, \<^verbatim>\<open>drv_ioctl\<close>);
  \<^item> \<^verbatim>\<open>drivers/media/platform/nuvoton/npcm750_ece.c\<close>, the \<^emph>\<open>media\<close> driver
    (functions \<^verbatim>\<open>npcm750_ece_...\<close>).
  Both are embedded function by function. \<^verbatim>\<open>u32\<close> is a 32-bit word whose arithmetic
  wraps; \<^verbatim>\<open>int\<close> fields of the ioctl structure are 32-bit words read through
  \<open>sint\<close> where the C code uses them as signed values.
\<close>

type_synonym u32 = "32 word"
type_synonym u8 = "8 word"

subsection \<open>Register offsets and bit fields\<close>

definition DDA_CTRL :: u32 where "DDA_CTRL = 0x0000"
definition DDA_STS :: u32 where "DDA_STS = 0x0004"
definition FBR_BA :: u32 where "FBR_BA = 0x0008"
definition ED_BA :: u32 where "ED_BA = 0x000C"
definition RECT_XY :: u32 where "RECT_XY = 0x0010"
definition RECT_DIMEN :: u32 where "RECT_DIMEN = 0x0014"
definition RESOL :: u32 where "RESOL = 0x001C"
definition HEX_CTRL :: u32 where "HEX_CTRL = 0x0040"
definition HEX_RECT_OFFSET :: u32 where "HEX_RECT_OFFSET = 0x0048"

text \<open>The video driver's names.\<close>

definition CDREADY :: u32 where "CDREADY = 0x100"
definition ENC_GAP :: u32 where "ENC_GAP = 0x1f00"
definition ENC_GAP_OFFSET :: nat where "ENC_GAP_OFFSET = 8"
definition ENC_MIN_GAP_SIZE :: u32 where "ENC_MIN_GAP_SIZE = 4"
definition ECE_RECT_DIMEN_HLTR_OFFSET :: nat where "ECE_RECT_DIMEN_HLTR_OFFSET = 27"
definition ECE_RECT_DIMEN_HR_OFFSET :: nat where "ECE_RECT_DIMEN_HR_OFFSET = 16"
definition ECE_RECT_DIMEN_WLTR_OFFSET :: nat where "ECE_RECT_DIMEN_WLTR_OFFSET = 11"
definition ECE_RECT_DIMEN_WR_OFFSET :: nat where "ECE_RECT_DIMEN_WR_OFFSET = 0"
definition ECEEN :: u32 where "ECEEN = 1"
definition ENCDIS :: u32 where "ENCDIS = 1"
definition LP_512 :: u32 where "LP_512 = 0"
definition LP_1024 :: u32 where "LP_1024 = 1"
definition LP_2048 :: u32 where "LP_2048 = 2"
definition LP_2560 :: u32 where "LP_2560 = 3"
definition LP_4096 :: u32 where "LP_4096 = 4"

text \<open>The media driver's names for the same values.\<close>

definition DDA_CTRL_ECEEN :: u32 where "DDA_CTRL_ECEEN = 1"
definition DDA_STS_CDREADY :: u32 where "DDA_STS_CDREADY = push_bit 8 1"
definition HEX_CTRL_ENCDIS :: u32 where "HEX_CTRL_ENCDIS = 1"
definition HEX_CTRL_ENC_GAP :: u32 where "HEX_CTRL_ENC_GAP = 0x1f00"
definition HEX_CTRL_ENC_GAP_OFFSET :: nat where "HEX_CTRL_ENC_GAP_OFFSET = 8"
definition HEX_CTRL_ENC_MIN_GAP_SIZE :: u32 where "HEX_CTRL_ENC_MIN_GAP_SIZE = 4"
definition RECT_DIMEN_HLTR_OFFSET :: nat where "RECT_DIMEN_HLTR_OFFSET = 27"
definition RECT_DIMEN_HR_OFFSET :: nat where "RECT_DIMEN_HR_OFFSET = 16"
definition RECT_DIMEN_WLTR_OFFSET :: nat where "RECT_DIMEN_WLTR_OFFSET = 11"
definition RECT_DIMEN_WR_OFFSET :: nat where "RECT_DIMEN_WR_OFFSET = 0"
definition RESOL_FB_LP_512 :: u32 where "RESOL_FB_LP_512 = 0"
definition RESOL_FB_LP_1024 :: u32 where "RESOL_FB_LP_1024 = 1"
definition RESOL_FB_LP_2048 :: u32 where "RESOL_FB_LP_2048 = 2"
definition RESOL_FB_LP_2560 :: u32 where "RESOL_FB_LP_2560 = 3"
definition RESOL_FB_LP_4096 :: u32 where "RESOL_FB_LP_4096 = 4"

text \<open>Shared by both drivers.\<close>

definition DEFAULT_WIDTH :: u32 where "DEFAULT_WIDTH = 640"
definition DEFAULT_HEIGHT :: u32 where "DEFAULT_HEIGHT = 640"
definition DEFAULT_LP :: u32 where "DEFAULT_LP = 2048"
definition ECE_MIN_LP :: int where "ECE_MIN_LP = 512"
definition ECE_MAX_LP :: int where "ECE_MAX_LP = 4096"
definition ECE_TILE_W :: u32 where "ECE_TILE_W = 16"
definition ECE_TILE_H :: u32 where "ECE_TILE_H = 16"
definition EFAULT :: int where "EFAULT = 14"

subsection \<open>Tile partition of a rectangle\<close>

text \<open>
  \<^verbatim>\<open>ece_enc_rect\<close> and \<^verbatim>\<open>npcm750_ece_enc_rect\<close> compute the same four local
  variables from the rectangle's width and height before they pack them into the
  dimension register. The record holds the locals; the three steps of
  \<open>enc_rect_tiles\<close> are the initialisers and the two \<^verbatim>\<open>if\<close> statements of the C code,
  in their order.
\<close>

record tile_layout =
  w_tile :: u32
  w_size :: u32
  h_tile :: u32
  h_size :: u32

definition enc_rect_tiles :: "u32 \<Rightarrow> u32 \<Rightarrow> tile_layout" where
  "enc_rect_tiles r_w r_h =
     (let t0 = \<lparr>w_tile = r_w div ECE_TILE_W, w_size = ECE_TILE_W,
                h_tile = r_h div ECE_TILE_H, h_size = ECE_TILE_H\<rparr>;
          t1 = (if r_w mod ECE_TILE_W \<noteq> 0
                then t0\<lparr>w_tile := w_tile t0 + 1, w_size := r_w mod ECE_TILE_W\<rparr>
                else t0);
          t2 = (if r_h mod ECE_TILE_H \<noteq> 0 \<or> h_tile t1 = 0
                then t1\<lparr>h_tile := h_tile t1 + 1, h_size := r_h mod ECE_TILE_H\<rparr>
                else t1)
      in t2)"

text \<open>The value written to \<^verbatim>\<open>RECT_DIMEN\<close>; every subtraction and shift is on \<^verbatim>\<open>u32\<close>.\<close>

definition rect_dimen_temp :: "tile_layout \<Rightarrow> u32" where
  "rect_dimen_temp t =
     push_bit ECE_RECT_DIMEN_WLTR_OFFSET (w_size t - 1)
     OR push_bit ECE_RECT_DIMEN_HLTR_OFFSET (h_size t - 1)
     OR push_bit ECE_RECT_DIMEN_WR_OFFSET (w_tile t - 1)
     OR push_bit ECE_RECT_DIMEN_HR_OFFSET (h_tile t - 1)"

subsection \<open>The memory-mapped engine\<close>

text \<open>
  The drivers see the engine through \<^verbatim>\<open>readl\<close>/\<^verbatim>\<open>writel\<close> on the register window and
  through plain loads from the mapped output buffer \<^verbatim>\<open>ed_buffer\<close>. The model of that
  environment:
  \<^item> \<open>regs\<close>: the register window, indexed by byte offset. A register other than
    \<^verbatim>\<open>DDA_STS\<close> reads back the value last written to it;
  \<^item> \<open>sts_hw\<close>: what the engine shows in \<^verbatim>\<open>DDA_STS\<close>, as a function of the number of
    accesses made so far, so that the drivers' polling loops are loops over a status that
    the engine, not the driver, changes;
  \<^item> \<open>ed_hw\<close>: the bytes of the output buffer, again as a function of the number of
    accesses made so far (the engine writes the buffer while the driver reads it);
  \<^item> \<open>trace\<close>: every access made, in program order.
  \<open>ed_buffer_size\<close> is the expression
  \<^verbatim>\<open>(u32)(buffer[0] | (buffer[1] << 8) | (buffer[2] << 16) | (buffer[3] << 24))\<close> of both
  drivers; \<open>ed_size_word\<close> evaluates it on the buffer as it is at that moment, as one
  event of the trace. \<^verbatim>\<open>char\<close> is unsigned on ARM, the architecture of
  the NPCM750, so each byte is zero-extended to \<^verbatim>\<open>int\<close>.
\<close>

datatype io_event = Readl u32 | Writel u32 u32 | ReadEd nat

record mmio =
  regs :: "u32 \<Rightarrow> u32"
  sts_hw :: "nat \<Rightarrow> u32"
  ed_hw :: "nat \<Rightarrow> nat \<Rightarrow> u8"
  trace :: "io_event list"

definition readl :: "u32 \<Rightarrow> 'a mmio_scheme \<Rightarrow> u32 \<times> 'a mmio_scheme" where
  "readl addr s =
     (if addr = DDA_STS then sts_hw s (length (trace s)) else regs s addr,
      s\<lparr>trace := trace s @ [Readl addr]\<rparr>)"

definition writel :: "u32 \<Rightarrow> u32 \<Rightarrow> 'a mmio_scheme \<Rightarrow> 'a mmio_scheme" where
  "writel val addr s = s\<lparr>regs := (regs s)(addr := val), trace := trace s @ [Writel val addr]\<rparr>"

definition ed_buffer_size :: "(nat \<Rightarrow> u8) \<Rightarrow> u32" where
  "ed_buffer_size buffer =
     ucast (buffer 0) OR push_bit 8 (ucast (buffer 1))
       OR push_bit 16 (ucast (buffer 2)) OR push_bit 24 (ucast (buffer 3))"

definition ed_size_word :: "nat \<Rightarrow> 'a mmio_scheme \<Rightarrow> u32 \<times> 'a mmio_scheme" where
  "ed_size_word off s =
     (ed_buffer_size (\<lambda>i. ed_hw s (length (trace s)) (off + i)),
      s\<lparr>trace := trace s @ [ReadEd off]\<rparr>)"

text \<open>
  Two ways to speak about the engine's behaviour in the statements below.
  \<open>ready_after s n\<close>: counted from the state \<open>s\<close>, the first \<open>n\<close> accesses see bit 8 of
  \<^verbatim>\<open>DDA_STS\<close> clear and the next one sees it set. \<open>ed_size_at s off k\<close>: the size word that
  the output buffer holds at offset \<open>off\<close> at the \<open>k\<close>-th access counted from \<open>s\<close>.
\<close>

definition ready_after :: "'a mmio_scheme \<Rightarrow> nat \<Rightarrow> bool" where
  "ready_after s n \<longleftrightarrow>
     (\<forall>i<n. \<not> bit (sts_hw s (length (trace s) + i)) 8)
     \<and> bit (sts_hw s (length (trace s) + n)) 8"

definition ed_size_at :: "'a mmio_scheme \<Rightarrow> nat \<Rightarrow> nat \<Rightarrow> u32" where
  "ed_size_at s off k = ed_buffer_size (\<lambda>i. ed_hw s (length (trace s) + k) (off + i))"

subsection \<open>Driver state and the ioctl argument\<close>

text \<open>
  \<^verbatim>\<open>struct npcm750_ece\<close>: the fields the modelled functions use. \<open>lin_pitch\<close> and
  \<open>enc_gap\<close> are in both drivers' structure; \<open>smem_start\<close>, \<open>width\<close> and \<open>height\<close> only in
  the video driver's. \<^verbatim>\<open>struct ece_ioctl_cmd\<close> is the same in both; its fields carry the
  prefix \<open>cmd_\<close> here. The \<^verbatim>\<open>mutex\<close> taken by both ioctl handlers has no effect on one
  caller alone and is not modelled.
\<close>

record ece_dev = mmio +
  lin_pitch :: u32
  enc_gap :: u32

record ece_video = ece_dev +
  smem_start :: u32
  width :: u32
  height :: u32

record ece_ioctl_cmd =
  cmd_framebuf :: u32
  cmd_gap_len :: u32
  cmd_buf :: u32
  cmd_len :: u32
  cmd_x :: u32
  cmd_y :: u32
  cmd_w :: u32
  cmd_h :: u32
  cmd_lp :: u32

datatype ioctl_nr =
  ECE_IOCGETED | ECE_IOCSETFB | ECE_IOCSETLP | ECE_IOCGET_OFFSET | ECE_IOCCLEAR_OFFSET
  | ECE_IOC_OTHER

text \<open>What an ioctl copied back to the caller.\<close>

datatype user_out = No_Out | Out_Offset u32 | Out_Cmd ece_ioctl_cmd

subsection \<open>The video driver\<close>

definition ece_is_rect_compressed :: "'a mmio_scheme \<Rightarrow> u32 \<times> 'a mmio_scheme" where
  "ece_is_rect_compressed ece =
     (let (temp, ece) = readl DDA_STS ece in (temp AND CDREADY, ece))"

definition ece_clear_drs :: "'a mmio_scheme \<Rightarrow> 'a mmio_scheme" where
  "ece_clear_drs ece =
     (let (temp, ece) = readl DDA_STS ece;
          temp = temp OR CDREADY;
          ece = writel temp DDA_STS ece;
          (temp, ece) = readl DDA_STS ece
      in ece)"

text \<open>The loop \<^verbatim>\<open>while (ece_is_rect_compressed(ece) != CDREADY) ;\<close> may run forever.\<close>

partial_function (option) ece_get_ed_size_wait :: "'a mmio_scheme \<Rightarrow> 'a mmio_scheme option" where
  "ece_get_ed_size_wait ece =
     (case ece_is_rect_compressed ece of
        (r, ece') \<Rightarrow> if r \<noteq> CDREADY then ece_get_ed_size_wait ece' else Some ece')"

declare ece_get_ed_size_wait.simps [code]

text \<open>
  The \<^verbatim>\<open>do { size = ...; count++; } while (size == 0 && count < 30);\<close> loop, entered
  with the current \<^verbatim>\<open>count\<close>; it returns the last size, the final count and the state.
\<close>

function ece_get_ed_size_retry :: "int \<Rightarrow> 'a mmio_scheme \<Rightarrow> u32 \<times> int \<times> 'a mmio_scheme" where
  "ece_get_ed_size_retry count ece =
     (let (size, ece') = ed_size_word 0 ece;
          count' = count + 1
      in if size = 0 \<and> count' < 30 then ece_get_ed_size_retry count' ece'
         else (size, count', ece'))"
  by pat_completeness auto
termination
  by (relation "measure (\<lambda>(count, ece). nat (30 - count))") auto

declare ece_get_ed_size_retry.simps [simp del]

definition ece_get_ed_size :: "'a mmio_scheme \<Rightarrow> (u32 \<times> 'a mmio_scheme) option" where
  "ece_get_ed_size ece =
     (case ece_get_ed_size_wait ece of
        None \<Rightarrow> None
      | Some ece \<Rightarrow>
          (let (size, count, ece) = ece_get_ed_size_retry 0 ece;
               ece = ece_clear_drs ece
           in Some (size, ece)))"

definition ece_clear_rect_offset :: "'a mmio_scheme \<Rightarrow> 'a mmio_scheme" where
  "ece_clear_rect_offset ece = (let temp = 0 in writel temp HEX_RECT_OFFSET ece)"

definition fifo_reset_bypass :: "'a mmio_scheme \<Rightarrow> 'a mmio_scheme" where
  "fifo_reset_bypass ece =
     (let (temp, ece) = readl DDA_CTRL ece;
          temp = temp AND NOT ECEEN;
          ece = writel temp DDA_CTRL ece;
          temp = temp OR ECEEN;
          ece = writel temp DDA_CTRL ece
      in ece)"

definition ece_enc_rect ::
  "'a ece_dev_scheme \<Rightarrow> u32 \<Rightarrow> u32 \<Rightarrow> u32 \<Rightarrow> u32 \<Rightarrow> 'a ece_dev_scheme" where
  "ece_enc_rect ece r_off_x r_off_y r_w r_h =
     (let rect_offset = (r_off_y * lin_pitch ece) + (r_off_x * 2);
          ece = fifo_reset_bypass ece;
          ece = writel rect_offset RECT_XY ece;
          temp = rect_dimen_temp (enc_rect_tiles r_w r_h)
      in writel temp RECT_DIMEN ece)"

text \<open>
  \<^verbatim>\<open>ece_set_enc_dba\<close> and \<^verbatim>\<open>ece_set_fb_addr\<close> return the constant 0, which no caller
  reads; the model returns the state only.
\<close>

definition ece_set_enc_dba :: "'a ece_video_scheme \<Rightarrow> 'a ece_video_scheme" where
  "ece_set_enc_dba ece = writel (smem_start ece) ED_BA ece"

definition ece_set_fb_addr :: "'a mmio_scheme \<Rightarrow> u32 \<Rightarrow> 'a mmio_scheme" where
  "ece_set_fb_addr ece buffer = writel buffer FBR_BA ece"

definition ece_set_lp :: "'a ece_dev_scheme \<Rightarrow> u32 \<Rightarrow> 'a ece_dev_scheme" where
  "ece_set_lp ece pitch =
     (case (if pitch = 512 then Some LP_512
            else if pitch = 1024 then Some LP_1024
            else if pitch = 2048 then Some LP_2048
            else if pitch = 2560 then Some LP_2560
            else if pitch = 4096 then Some LP_4096
            else None) of
        None \<Rightarrow> ece
      | Some lp \<Rightarrow> writel lp RESOL (ece\<lparr>lin_pitch := pitch\<rparr>))"

definition ece_reset :: "'a ece_dev_scheme \<Rightarrow> 'a ece_dev_scheme" where
  "ece_reset ece =
     (let (temp, ece) = readl DDA_CTRL ece;
          temp = temp AND NOT ECEEN;
          ece = writel temp DDA_CTRL ece;
          temp = temp OR ECEEN;
          ece = writel temp DDA_CTRL ece;
          (temp, ece) = readl HEX_CTRL ece;
          temp = temp OR ENCDIS;
          ece = writel temp HEX_CTRL ece;
          (temp, ece) = readl HEX_CTRL ece;
          temp = temp AND NOT ENCDIS;
          ece = writel temp HEX_CTRL ece;
          temp = 0;
          ece = writel temp HEX_RECT_OFFSET ece;
          (v, ece) = readl HEX_CTRL ece;
          ece = ece\<lparr>enc_gap := drop_bit ENC_GAP_OFFSET (v AND ENC_GAP)\<rparr>
      in if enc_gap ece = 0 then ece\<lparr>enc_gap := ENC_MIN_GAP_SIZE\<rparr> else ece)"

text \<open>
  \<^verbatim>\<open>drv_ioctl\<close>. \<open>uarg\<close> is the structure behind the user pointer, \<open>None\<close> when
  \<^verbatim>\<open>copy_from_user\<close> faults; \<open>uwr\<close> tells whether \<^verbatim>\<open>copy_to_user\<close> succeeds. The result
  is the return value, what was copied back, and the new state; it is \<open>None\<close> when the
  handler never returns.
\<close>

definition drv_ioctl ::
  "'a ece_video_scheme \<Rightarrow> ioctl_nr \<Rightarrow> ece_ioctl_cmd option \<Rightarrow> bool
     \<Rightarrow> (int \<times> user_out \<times> 'a ece_video_scheme) option" where
  "drv_ioctl ece cmd uarg uwr =
     (case uarg of
        None \<Rightarrow> Some (- EFAULT, No_Out, ece)
      | Some data \<Rightarrow>
          (case cmd of
             ECE_IOCSETLP \<Rightarrow>
               (let ece = (if sint (cmd_lp data) smod ECE_MIN_LP = 0
                              \<and> sint (cmd_lp data) \<le> ECE_MAX_LP
                           then ece_set_lp ece (cmd_lp data) else ece);
                    ece = (if cmd_w data \<noteq> width ece \<or> cmd_h data \<noteq> height ece
                           then ece_set_enc_dba (ece\<lparr>width := cmd_w data, height := cmd_h data\<rparr>)
                           else ece)
                in Some (0, No_Out, ece))
           | ECE_IOCSETFB \<Rightarrow>
               (if cmd_framebuf data = 0 then Some (- EFAULT, No_Out, ece)
                else Some (0, No_Out, ece_set_fb_addr ece (cmd_framebuf data)))
           | ECE_IOCGETED \<Rightarrow>
               (let ece = ece_enc_rect ece (cmd_x data) (cmd_y data) (cmd_w data) (cmd_h data)
                in case ece_get_ed_size ece of
                     None \<Rightarrow> None
                   | Some (ed_size, ece) \<Rightarrow>
                       (let ece = ece_clear_rect_offset ece;
                            (v, ece) = readl HEX_CTRL ece;
                            ece = ece\<lparr>enc_gap := drop_bit ENC_GAP_OFFSET (v AND ENC_GAP)\<rparr>;
                            ece = (if enc_gap ece = 0 then ece\<lparr>enc_gap := ENC_MIN_GAP_SIZE\<rparr>
                                   else ece);
                            data = data\<lparr>cmd_gap_len := enc_gap ece, cmd_len := ed_size\<rparr>
                        in if uwr then Some (0, Out_Cmd data, ece)
                           else Some (- EFAULT, No_Out, ece)))
           | _ \<Rightarrow> Some (0, No_Out, ece)))"


subsection \<open>The media driver\<close>

text \<open>
  The parameter \<^verbatim>\<open>mask\<close> of \<^verbatim>\<open>npcm750_ece_update_bits\<close>, written \<open>msk\<close> here, is an \<^verbatim>\<open>unsigned long\<close>, which has 32 bits on the NPCM750; \<^verbatim>\<open>BIT(0)\<close> is
  \<^verbatim>\<open>1UL\<close>, so \<^verbatim>\<open>~DDA_CTRL_ECEEN\<close> is \<open>NOT DDA_CTRL_ECEEN\<close> on 32 bits.
\<close>

definition npcm750_ece_update_bits ::
  "'a mmio_scheme \<Rightarrow> u32 \<Rightarrow> u32 \<Rightarrow> u32 \<Rightarrow> 'a mmio_scheme" where
  "npcm750_ece_update_bits ece offset msk bits =
     (let (t, ece) = readl offset ece;
          t = t AND NOT msk;
          t = t OR (bits AND msk)
      in writel t offset ece)"

definition npcm750_ece_read :: "'a mmio_scheme \<Rightarrow> u32 \<Rightarrow> u32 \<times> 'a mmio_scheme" where
  "npcm750_ece_read ece reg = readl reg ece"

definition npcm750_ece_write :: "'a mmio_scheme \<Rightarrow> u32 \<Rightarrow> u32 \<Rightarrow> 'a mmio_scheme" where
  "npcm750_ece_write ece reg val = writel val reg ece"

definition npcm750_ece_clear_drs :: "'a mmio_scheme \<Rightarrow> 'a mmio_scheme" where
  "npcm750_ece_clear_drs ece =
     npcm750_ece_update_bits ece DDA_STS DDA_STS_CDREADY DDA_STS_CDREADY"

definition npcm750_ece_clear_rect_offset :: "'a mmio_scheme \<Rightarrow> 'a mmio_scheme" where
  "npcm750_ece_clear_rect_offset ece = npcm750_ece_write ece HEX_RECT_OFFSET 0"

definition npcm750_ece_read_rect_offset :: "'a mmio_scheme \<Rightarrow> u32 \<times> 'a mmio_scheme" where
  "npcm750_ece_read_rect_offset ece = npcm750_ece_read ece HEX_RECT_OFFSET"

definition npcm750_ece_is_rect_compressed :: "'a mmio_scheme \<Rightarrow> u32 \<times> 'a mmio_scheme" where
  "npcm750_ece_is_rect_compressed ece =
     (let (temp, ece) = npcm750_ece_read ece DDA_STS
      in if temp AND DDA_STS_CDREADY = 0 then (0, ece) else (1, ece))"

text \<open>The loop \<^verbatim>\<open>while (!npcm750_ece_is_rect_compressed(ece)) ;\<close> may run forever.\<close>

partial_function (option) npcm750_ece_get_ed_size_wait ::
  "'a mmio_scheme \<Rightarrow> 'a mmio_scheme option" where
  "npcm750_ece_get_ed_size_wait ece =
     (case npcm750_ece_is_rect_compressed ece of
        (r, ece') \<Rightarrow> if r = 0 then npcm750_ece_get_ed_size_wait ece' else Some ece')"

declare npcm750_ece_get_ed_size_wait.simps [code]

definition npcm750_ece_get_ed_size ::
  "'a mmio_scheme \<Rightarrow> u32 \<Rightarrow> (u32 \<times> 'a mmio_scheme) option" where
  "npcm750_ece_get_ed_size ece offset =
     (case npcm750_ece_get_ed_size_wait ece of
        None \<Rightarrow> None
      | Some ece \<Rightarrow>
          (let (size, ece) = ed_size_word (unat offset) ece;
               ece = npcm750_ece_clear_drs ece
           in Some (size, ece)))"

definition npcm750_ece_fifo_reset_bypass :: "'a mmio_scheme \<Rightarrow> 'a mmio_scheme" where
  "npcm750_ece_fifo_reset_bypass ece =
     (let ece = npcm750_ece_update_bits ece DDA_CTRL DDA_CTRL_ECEEN (NOT DDA_CTRL_ECEEN)
      in npcm750_ece_update_bits ece DDA_CTRL DDA_CTRL_ECEEN DDA_CTRL_ECEEN)"

text \<open>
  The media driver packs the dimension register with its own names
  \<^verbatim>\<open>RECT_DIMEN_..._OFFSET\<close> for the four shift amounts.
\<close>

definition npcm750_rect_dimen_temp :: "tile_layout \<Rightarrow> u32" where
  "npcm750_rect_dimen_temp t =
     push_bit RECT_DIMEN_WLTR_OFFSET (w_size t - 1)
     OR push_bit RECT_DIMEN_HLTR_OFFSET (h_size t - 1)
     OR push_bit RECT_DIMEN_WR_OFFSET (w_tile t - 1)
     OR push_bit RECT_DIMEN_HR_OFFSET (h_tile t - 1)"

definition npcm750_ece_enc_rect ::
  "'a ece_dev_scheme \<Rightarrow> u32 \<Rightarrow> u32 \<Rightarrow> u32 \<Rightarrow> u32 \<Rightarrow> 'a ece_dev_scheme" where
  "npcm750_ece_enc_rect ece r_off_x r_off_y r_w r_h =
     (let rect_offset = (r_off_y * lin_pitch ece) + (r_off_x * 2);
          ece = npcm750_ece_fifo_reset_bypass ece;
          ece = npcm750_ece_write ece RECT_XY rect_offset;
          temp = npcm750_rect_dimen_temp (enc_rect_tiles r_w r_h)
      in npcm750_ece_write ece RECT_DIMEN temp)"

definition npcm750_ece_set_fb_addr :: "'a mmio_scheme \<Rightarrow> u32 \<Rightarrow> 'a mmio_scheme" where
  "npcm750_ece_set_fb_addr ece buffer = npcm750_ece_write ece FBR_BA buffer"

definition npcm750_ece_set_lp :: "'a ece_dev_scheme \<Rightarrow> u32 \<Rightarrow> 'a ece_dev_scheme" where
  "npcm750_ece_set_lp ece pitch =
     (case (if pitch = 512 then Some RESOL_FB_LP_512
            else if pitch = 1024 then Some RESOL_FB_LP_1024
            else if pitch = 2048 then Some RESOL_FB_LP_2048
            else if pitch = 2560 then Some RESOL_FB_LP_2560
            else if pitch = 4096 then Some RESOL_FB_LP_4096
            else None) of
        None \<Rightarrow> ece
      | Some lp \<Rightarrow> npcm750_ece_write (ece\<lparr>lin_pitch := pitch\<rparr>) RESOL lp)"

definition npcm750_ece_reset :: "'a mmio_scheme \<Rightarrow> 'a mmio_scheme" where
  "npcm750_ece_reset ece =
     (let ece = npcm750_ece_update_bits ece DDA_CTRL DDA_CTRL_ECEEN (NOT DDA_CTRL_ECEEN);
          ece = npcm750_ece_update_bits ece HEX_CTRL HEX_CTRL_ENCDIS HEX_CTRL_ENCDIS;
          ece = npcm750_ece_update_bits ece DDA_CTRL DDA_CTRL_ECEEN DDA_CTRL_ECEEN;
          ece = npcm750_ece_update_bits ece HEX_CTRL HEX_CTRL_ENCDIS (NOT HEX_CTRL_ENCDIS)
      in npcm750_ece_clear_rect_offset ece)"

text \<open>
  \<^verbatim>\<open>npcm750_ece_ioctl\<close>, with the arguments and the result of \<open>drv_ioctl\<close>. Only three
  of the five commands read the structure behind the user pointer.
\<close>

definition npcm750_ece_ioctl ::
  "'a ece_dev_scheme \<Rightarrow> ioctl_nr \<Rightarrow> ece_ioctl_cmd option \<Rightarrow> bool
     \<Rightarrow> (int \<times> user_out \<times> 'a ece_dev_scheme) option" where
  "npcm750_ece_ioctl ece cmd uarg uwr =
     (case cmd of
        ECE_IOCCLEAR_OFFSET \<Rightarrow> Some (0, No_Out, npcm750_ece_clear_rect_offset ece)
      | ECE_IOCGET_OFFSET \<Rightarrow>
          (let (offset, ece) = npcm750_ece_read_rect_offset ece
           in if uwr then Some (0, Out_Offset offset, ece) else Some (- EFAULT, No_Out, ece))
      | ECE_IOCSETLP \<Rightarrow>
          (case uarg of
             None \<Rightarrow> Some (- EFAULT, No_Out, ece)
           | Some data \<Rightarrow>
               (let ece = (if sint (cmd_lp data) smod ECE_MIN_LP = 0
                              \<and> sint (cmd_lp data) \<le> ECE_MAX_LP
                           then npcm750_ece_set_lp ece (cmd_lp data) else ece)
                in Some (0, No_Out, ece)))
      | ECE_IOCSETFB \<Rightarrow>
          (case uarg of
             None \<Rightarrow> Some (- EFAULT, No_Out, ece)
           | Some data \<Rightarrow>
               (if cmd_framebuf data = 0 then Some (- EFAULT, No_Out, ece)
                else Some (0, No_Out, npcm750_ece_set_fb_addr ece (cmd_framebuf data))))
      | ECE_IOCGETED \<Rightarrow>
          (case uarg of
             None \<Rightarrow> Some (- EFAULT, No_Out, ece)
           | Some data \<Rightarrow>
               (let (offset, ece) = npcm750_ece_read_rect_offset ece;
                    ece = npcm750_ece_enc_rect ece (cmd_x data) (cmd_y data) (cmd_w data)
                            (cmd_h data)
                in case npcm750_ece_get_ed_size ece offset of
                     None \<Rightarrow> None
                   | Some (ed_size, ece) \<Rightarrow>
                       (let (v, ece) = npcm750_ece_read ece HEX_CTRL;
                            ece = ece\<lparr>enc_gap :=
                                    drop_bit HEX_CTRL_ENC_GAP_OFFSET (v AND HEX_CTRL_ENC_GAP)\<rparr>;
                            ece = (if enc_gap ece = 0
                                   then ece\<lparr>enc_gap := HEX_CTRL_ENC_MIN_GAP_SIZE\<rparr> else ece);
                            data = data\<lparr>cmd_gap_len := enc_gap ece, cmd_len := ed_size\<rparr>
                        in if uwr then Some (0, Out_Cmd data, ece)
                           else Some (- EFAULT, No_Out, ece))))
      | ECE_IOC_OTHER \<Rightarrow> Some (0, No_Out, ece))"

subsection \<open>Vocabulary of the statements\<close>

text \<open>
  The line pitches that \<^verbatim>\<open>ece_set_lp\<close> and \<^verbatim>\<open>npcm750_ece_set_lp\<close> have a \<^verbatim>\<open>case\<close> for
  (``Can be on of those values: 512, 1024, 2048, 2560 or 4096 bytes'').
\<close>

definition legal_pitch :: "u32 \<Rightarrow> bool" where
  "legal_pitch pitch \<longleftrightarrow> pitch \<in> {512, 1024, 2048, 2560, 4096}"

text \<open>The gap field of a \<^verbatim>\<open>HEX_CTRL\<close> value: its bits 8 to 12, as a number.\<close>

definition hex_ctrl_gap :: "u32 \<Rightarrow> u32" where
  "hex_ctrl_gap v = take_bit 5 (drop_bit 8 v)"

text \<open>
  A device state and an ioctl argument to run the drivers on: every register 0 except
  \<^verbatim>\<open>HEX_CTRL\<close>, whose gap field (bits 8..12) holds 6; the engine raises bit 8 of
  \<^verbatim>\<open>DDA_STS\<close> from the ninth access on; the output buffer holds 0 until the twelfth
  access and the bytes \<open>0x2A, 0x01, 0, 0\<close> at offsets 0..3 afterwards.
\<close>

definition example_dev :: ece_video where
  "example_dev =
     \<lparr>regs = (\<lambda>r. if r = HEX_CTRL then 0x600 else 0),
      sts_hw = (\<lambda>n. if n < 8 then 0 else 0x100),
      ed_hw = (\<lambda>n i. if n < 11 then 0 else if i = 0 then 0x2A else if i = 1 then 1 else 0),
      trace = [],
      lin_pitch = 2048, enc_gap = 4,
      smem_start = 0x1000000, width = 640, height = 640\<rparr>"

definition example_cmd :: ece_ioctl_cmd where
  "example_cmd =
     \<lparr>cmd_framebuf = 0x2000000, cmd_gap_len = 0, cmd_buf = 0, cmd_len = 0,
      cmd_x = 10, cmd_y = 0, cmd_w = 20, cmd_h = 20, cmd_lp = 1024\<rparr>"

section \<open>Unfolding the constants\<close>

lemmas ece_regs =
  DDA_CTRL_def DDA_STS_def FBR_BA_def ED_BA_def RECT_XY_def RECT_DIMEN_def RESOL_def
  HEX_CTRL_def HEX_RECT_OFFSET_def

lemmas ece_bits =
  CDREADY_def ENC_GAP_def ENC_GAP_OFFSET_def ENC_MIN_GAP_SIZE_def ECEEN_def ENCDIS_def
  DDA_CTRL_ECEEN_def DDA_STS_CDREADY_def HEX_CTRL_ENCDIS_def HEX_CTRL_ENC_GAP_def
  HEX_CTRL_ENC_GAP_OFFSET_def HEX_CTRL_ENC_MIN_GAP_SIZE_def

lemmas ece_lp_codes =
  LP_512_def LP_1024_def LP_2048_def LP_2560_def LP_4096_def
  RESOL_FB_LP_512_def RESOL_FB_LP_1024_def RESOL_FB_LP_2048_def RESOL_FB_LP_2560_def
  RESOL_FB_LP_4096_def

lemmas ece_dimen_offsets =
  ECE_RECT_DIMEN_HLTR_OFFSET_def ECE_RECT_DIMEN_HR_OFFSET_def
  ECE_RECT_DIMEN_WLTR_OFFSET_def ECE_RECT_DIMEN_WR_OFFSET_def
  RECT_DIMEN_HLTR_OFFSET_def RECT_DIMEN_HR_OFFSET_def
  RECT_DIMEN_WLTR_OFFSET_def RECT_DIMEN_WR_OFFSET_def

section \<open>Properties of the tile partition\<close>

lemma unat_div16: "unat ((w::u32) div 16) = unat w div 16"
  by (simp add: unat_div)

lemma unat_mod16: "unat ((w::u32) mod 16) = unat w mod 16"
  by (simp add: unat_mod)

lemma mod16_0_iff: "((w::u32) mod 16 = 0) = (unat w mod 16 = 0)"
  using unat_mod16 [of w] unat_eq_0 [of "w mod 16"] by simp

lemma div16_0_iff: "((w::u32) div 16 = 0) = (unat w div 16 = 0)"
  using unat_div16 [of w] unat_eq_0 [of "w div 16"] by simp

lemma unat_div16_succ: "unat ((w::u32) div 16 + 1) = unat w div 16 + 1"
proof -
  have "unat w < 2 ^ 32" using unsigned_less [of w] by simp
  then have "unat w div 16 + 1 < 2 ^ 32" by simp
  then show ?thesis by (simp add: unat_word_ariths unat_div16)
qed

lemma ceil16_exact:
  assumes "n mod 16 = 0"
  shows "((n::nat) + 15) div 16 = n div 16"
proof -
  have "(n + 15) div 16 = n div 16 + 15 div 16 + (n mod 16 + 15 mod 16) div 16"
    by (rule div_add1_eq)
  with assms show ?thesis by simp
qed

lemma ceil16_inexact:
  assumes "n mod 16 \<noteq> 0"
  shows "((n::nat) + 15) div 16 = n div 16 + 1"
proof -
  have lt: "n mod 16 < 16" by simp
  from assms have "16 \<le> n mod 16 + 15" by simp
  moreover from lt have "n mod 16 + 15 < 2 * 16" by simp
  ultimately have one: "(n mod 16 + 15) div 16 = 1"
    by (simp add: div_nat_eqI)
  have "(n + 15) div 16 = n div 16 + 15 div 16 + (n mod 16 + 15 mod 16) div 16"
    by (rule div_add1_eq)
  with one show ?thesis by simp
qed

lemma enc_rect_tiles_w_tile:
  "w_tile (enc_rect_tiles w h) = (if w mod 16 \<noteq> 0 then w div 16 + 1 else w div 16)"
  by (simp add: enc_rect_tiles_def ECE_TILE_W_def ECE_TILE_H_def Let_def)

lemma enc_rect_tiles_w_size:
  "w_size (enc_rect_tiles w h) = (if w mod 16 \<noteq> 0 then w mod 16 else 16)"
  by (simp add: enc_rect_tiles_def ECE_TILE_W_def ECE_TILE_H_def Let_def)

lemma enc_rect_tiles_h_tile:
  "h_tile (enc_rect_tiles w h) =
     (if h mod 16 \<noteq> 0 \<or> h div 16 = 0 then h div 16 + 1 else h div 16)"
  by (simp add: enc_rect_tiles_def ECE_TILE_W_def ECE_TILE_H_def Let_def)

lemma enc_rect_tiles_h_size:
  "h_size (enc_rect_tiles w h) =
     (if h mod 16 \<noteq> 0 \<or> h div 16 = 0 then h mod 16 else 16)"
  by (simp add: enc_rect_tiles_def ECE_TILE_W_def ECE_TILE_H_def Let_def)

lemma unat_w_tile: "unat (w_tile (enc_rect_tiles w h)) = (unat w + 15) div 16"
proof (cases "unat w mod 16 = 0")
  case True
  then show ?thesis
    by (simp add: enc_rect_tiles_w_tile mod16_0_iff unat_div16 ceil16_exact)
next
  case False
  then show ?thesis
    by (simp add: enc_rect_tiles_w_tile mod16_0_iff unat_div16_succ ceil16_inexact)
qed

lemma unat_w_size:
  "unat (w_size (enc_rect_tiles w h)) = (if unat w mod 16 = 0 then 16 else unat w mod 16)"
  by (simp add: enc_rect_tiles_w_size mod16_0_iff unat_mod16)

lemma unat_h_tile:
  "unat (h_tile (enc_rect_tiles w h)) =
     (if 0 < unat h mod 16 \<or> unat h div 16 = 0 then unat h div 16 + 1 else unat h div 16)"
  by (simp add: enc_rect_tiles_h_tile mod16_0_iff div16_0_iff unat_div16 unat_div16_succ)

lemma unat_h_size:
  "unat (h_size (enc_rect_tiles w h)) =
     (if 0 < unat h mod 16 \<or> unat h div 16 = 0 then unat h mod 16 else 16)"
  by (simp add: enc_rect_tiles_h_size mod16_0_iff div16_0_iff unat_mod16)

text \<open>
  Claim C1. For every rectangle, read as unsigned numbers: the column count is
  \<open>ceil (w / 16)\<close> and the last column is 16 wide when \<open>w\<close> is a multiple of 16 and
  \<open>w mod 16\<close> wide otherwise; the row count is \<open>h div 16\<close>, plus one exactly when \<open>h\<close> is
  not a multiple of 16 or \<open>h div 16\<close> is zero, and the last row is \<open>h mod 16\<close> high when
  the row count was incremented and 16 high otherwise.
\<close>

theorem tile_partition_values:
  "unat (w_tile (enc_rect_tiles w h)) = (unat w + 15) div 16
   \<and> unat (w_size (enc_rect_tiles w h)) = (if unat w mod 16 = 0 then 16 else unat w mod 16)
   \<and> unat (h_tile (enc_rect_tiles w h)) =
       (if 0 < unat h mod 16 \<or> unat h div 16 = 0 then unat h div 16 + 1 else unat h div 16)
   \<and> unat (h_size (enc_rect_tiles w h)) =
       (if 0 < unat h mod 16 \<or> unat h div 16 = 0 then unat h mod 16 else 16)"
  using unat_w_tile [of w h] unat_w_size [of w h] unat_h_tile [of w h] unat_h_size [of w h]
  by simp

theorem tile_partition_values_witness:
  "unat (w_tile (enc_rect_tiles 20 20)) = 2
   \<and> unat (w_size (enc_rect_tiles 20 20)) = 4
   \<and> unat (h_tile (enc_rect_tiles 20 20)) = 2
   \<and> unat (h_size (enc_rect_tiles 20 20)) = 4"
  using tile_partition_values [of 20 20] by simp


text \<open>
  Claim C2, as amended. The claimed invariant (at least one tile column and one tile row,
  both remainders in 1..16) fails for a rectangle of width 0 or height 0. What holds for
  every rectangle: at least one tile row, a last-column width in 1..16 and a last-row
  height of at most 16; there is at least one tile column when the width is not 0, and
  the last-row height is at least 1 when the height is not 0.
\<close>

theorem tile_layout_invariant_amended:
  "1 \<le> unat (h_tile (enc_rect_tiles w h))
   \<and> 1 \<le> unat (w_size (enc_rect_tiles w h)) \<and> unat (w_size (enc_rect_tiles w h)) \<le> 16
   \<and> unat (h_size (enc_rect_tiles w h)) \<le> 16
   \<and> (0 < unat w \<longrightarrow> 1 \<le> unat (w_tile (enc_rect_tiles w h)))
   \<and> (0 < unat h \<longrightarrow> 1 \<le> unat (h_size (enc_rect_tiles w h)))"
proof -
  have rows: "1 \<le> unat (h_tile (enc_rect_tiles w h))"
    by (simp add: unat_h_tile)
  have ws: "1 \<le> unat (w_size (enc_rect_tiles w h)) \<and> unat (w_size (enc_rect_tiles w h)) \<le> 16"
    using mod_less_divisor [of 16 "unat w"] by (simp add: unat_w_size less_imp_le Suc_leI)
  have hs: "unat (h_size (enc_rect_tiles w h)) \<le> 16"
    using mod_less_divisor [of 16 "unat h"] by (simp add: unat_h_size less_imp_le)
  have cols: "1 \<le> unat (w_tile (enc_rect_tiles w h))" if "0 < unat w"
  proof -
    from that have "16 \<le> unat w + 15" by simp
    then have "16 div 16 \<le> (unat w + 15) div 16" by (rule div_le_mono)
    then show ?thesis by (simp add: unat_w_tile)
  qed
  have hs1: "1 \<le> unat (h_size (enc_rect_tiles w h))" if "0 < unat h"
  proof (cases "unat h mod 16 = 0")
    case True
    have "unat h div 16 \<noteq> 0"
    proof
      assume "unat h div 16 = 0"
      then have "unat h < 16" by (simp add: div_eq_0_iff)
      with True have "unat h = 0" by simp
      with that show False by simp
    qed
    with True show ?thesis by (simp add: unat_h_size)
  next
    case False
    then show ?thesis by (simp add: unat_h_size Suc_leI)
  qed
  from rows ws hs cols hs1 show ?thesis by blast
qed

theorem tile_layout_invariant_amended_witness:
  "0 < unat (20::u32) \<and> 0 < unat (33::u32)
   \<and> 1 \<le> unat (h_tile (enc_rect_tiles 20 33))
   \<and> 1 \<le> unat (w_size (enc_rect_tiles 20 33)) \<and> unat (w_size (enc_rect_tiles 20 33)) \<le> 16
   \<and> unat (h_size (enc_rect_tiles 20 33)) \<le> 16
   \<and> 1 \<le> unat (w_tile (enc_rect_tiles 20 33))
   \<and> 1 \<le> unat (h_size (enc_rect_tiles 20 33))"
  using tile_layout_invariant_amended [of 20 33] by simp

text \<open>
  The invariant of claim C2 as stated, at the rectangle of width 0 and height 0: the
  partition has no tile column and a last-row height of 0.
\<close>

theorem tile_layout_invariant_counterexample:
  "\<not> (1 \<le> unat (w_tile (enc_rect_tiles 0 0)) \<and> 1 \<le> unat (h_tile (enc_rect_tiles 0 0))
      \<and> 1 \<le> unat (w_size (enc_rect_tiles 0 0)) \<and> unat (w_size (enc_rect_tiles 0 0)) \<le> 16
      \<and> 1 \<le> unat (h_size (enc_rect_tiles 0 0)) \<and> unat (h_size (enc_rect_tiles 0 0)) \<le> 16)"
  by (simp add: enc_rect_tiles_def ECE_TILE_W_def ECE_TILE_H_def Let_def)

text \<open>
  Claim C3, as amended. For every rectangle whose width is at least 1 and strictly less
  than the tile width 16, there is exactly one tile column and the last-column width is
  the rectangle's width.
\<close>

theorem narrow_rect_single_column:
  assumes "0 < unat w" and "unat w < 16"
  shows "unat (w_tile (enc_rect_tiles w h)) = 1 \<and> unat (w_size (enc_rect_tiles w h)) = unat w"
proof -
  from assms have m: "unat w mod 16 = unat w" by simp
  from assms have "16 \<le> unat w + 15" and "unat w + 15 < 2 * 16" by simp_all
  then have "(unat w + 15) div 16 = 1" by (simp add: div_nat_eqI)
  with m assms show ?thesis by (simp add: unat_w_tile unat_w_size)
qed

theorem narrow_rect_single_column_witness:
  "0 < unat (7::u32) \<and> unat (7::u32) < 16
   \<and> unat (w_tile (enc_rect_tiles 7 40)) = 1 \<and> unat (w_size (enc_rect_tiles 7 40)) = unat (7::u32)"
  using narrow_rect_single_column [of 7 40] by simp

text \<open>
  Claim C3 as stated, at width 0 (which is less than 16): there is no tile column, and
  the last-column width is 16, not 0.
\<close>

theorem narrow_rect_single_column_counterexample:
  "unat (0::u32) < 16
   \<and> \<not> (unat (w_tile (enc_rect_tiles 0 16)) = 1
          \<and> unat (w_size (enc_rect_tiles 0 16)) = unat (0::u32))"
  by (simp add: enc_rect_tiles_def ECE_TILE_W_def ECE_TILE_H_def Let_def)

section \<open>Register accesses\<close>

lemma writel_regs: "regs (writel v a s) = (regs s)(a := v)"
  by (simp add: writel_def)

lemma writel_trace: "trace (writel v a s) = trace s @ [Writel v a]"
  by (simp add: writel_def)

lemma readl_reg:
  "a \<noteq> DDA_STS \<Longrightarrow> readl a s = (regs s a, s\<lparr>trace := trace s @ [Readl a]\<rparr>)"
  by (simp add: readl_def)

lemma reg_neqs:
  "DDA_CTRL \<noteq> DDA_STS" "HEX_CTRL \<noteq> DDA_STS" "HEX_RECT_OFFSET \<noteq> DDA_STS"
  "DDA_CTRL \<noteq> HEX_CTRL" "HEX_CTRL \<noteq> DDA_CTRL"
  "HEX_RECT_OFFSET \<noteq> HEX_CTRL" "HEX_CTRL \<noteq> HEX_RECT_OFFSET"
  "HEX_RECT_OFFSET \<noteq> DDA_CTRL" "DDA_CTRL \<noteq> HEX_RECT_OFFSET"
  by (simp_all add: ece_regs)

section \<open>The polling loops\<close>

lemma readl_simps:
  "fst (readl a s) = (if a = DDA_STS then sts_hw s (length (trace s)) else regs s a)"
  "snd (readl a s) = s\<lparr>trace := trace s @ [Readl a]\<rparr>"
  by (simp_all add: readl_def)

lemma CDREADY_exp: "CDREADY = (2::u32) ^ 8"
  by (simp add: CDREADY_def)

lemma bit8_and_CDREADY_0: "((v::u32) AND CDREADY = 0) = (\<not> bit v 8)"
  unfolding CDREADY_exp by (rule and_exp_eq_0_iff_not_bit)

lemma bit8_and_CDREADY: "((v::u32) AND CDREADY = CDREADY) = bit v 8"
proof (cases "bit v 8")
  case True
  then have "v AND 2 ^ 8 = 2 ^ 8"
    by (intro bit_word_eqI) (auto simp only: bit_and_iff bit_exp_iff)
  with True show ?thesis unfolding CDREADY_exp by blast
next
  case False
  then have "v AND CDREADY = 0" by (simp add: bit8_and_CDREADY_0)
  with False show ?thesis by (simp add: CDREADY_def)
qed

lemma bit8_and_STS_CDREADY_0: "((v::u32) AND DDA_STS_CDREADY = 0) = (\<not> bit v 8)"
proof -
  have "DDA_STS_CDREADY = CDREADY" by (simp add: DDA_STS_CDREADY_def CDREADY_def)
  then show ?thesis by (simp add: bit8_and_CDREADY_0)
qed

lemma ece_is_rect_compressed_eq:
  "ece_is_rect_compressed s =
     (sts_hw s (length (trace s)) AND CDREADY, s\<lparr>trace := trace s @ [Readl DDA_STS]\<rparr>)"
  by (simp add: ece_is_rect_compressed_def readl_def)

lemma npcm750_ece_is_rect_compressed_eq:
  "npcm750_ece_is_rect_compressed s =
     (if bit (sts_hw s (length (trace s))) 8 then 1 else 0,
      s\<lparr>trace := trace s @ [Readl DDA_STS]\<rparr>)"
  by (simp add: npcm750_ece_is_rect_compressed_def npcm750_ece_read_def readl_def
      bit8_and_STS_CDREADY_0)

lemma ready_after_0: "ready_after s 0 = bit (sts_hw s (length (trace s))) 8"
  by (simp add: ready_after_def)

lemma ready_after_Suc:
  "ready_after s (Suc n) =
     (\<not> bit (sts_hw s (length (trace s))) 8 \<and> ready_after (s\<lparr>trace := trace s @ [e]\<rparr>) n)"
proof -
  have "(\<forall>i<Suc n. \<not> bit (sts_hw s (length (trace s) + i)) 8) =
        (\<not> bit (sts_hw s (length (trace s))) 8
         \<and> (\<forall>i<n. \<not> bit (sts_hw s (length (trace s) + Suc i)) 8))"
    by (simp add: All_less_Suc2)
  then show ?thesis by (simp add: ready_after_def)
qed

lemma ece_get_ed_size_wait_ready:
  "ready_after s n \<Longrightarrow>
   ece_get_ed_size_wait s = Some (s\<lparr>trace := trace s @ replicate (Suc n) (Readl DDA_STS)\<rparr>)"
proof (induction n arbitrary: s)
  case 0
  then show ?case
    by (subst ece_get_ed_size_wait.simps)
       (simp add: ece_is_rect_compressed_eq ready_after_0 bit8_and_CDREADY)
next
  case (Suc n)
  let ?s' = "s\<lparr>trace := trace s @ [Readl DDA_STS]\<rparr>"
  from Suc.prems have nb: "\<not> bit (sts_hw s (length (trace s))) 8" and r: "ready_after ?s' n"
    by (simp_all add: ready_after_Suc [where e = "Readl DDA_STS"])
  have "ece_get_ed_size_wait s = ece_get_ed_size_wait ?s'"
    using nb by (subst ece_get_ed_size_wait.simps)
       (simp add: ece_is_rect_compressed_eq bit8_and_CDREADY)
  also have "\<dots> = Some (?s'\<lparr>trace := trace ?s' @ replicate (Suc n) (Readl DDA_STS)\<rparr>)"
    by (rule Suc.IH [OF r])
  finally show ?case by simp
qed

lemma ece_get_ed_size_wait_Some:
  assumes "ece_get_ed_size_wait s = Some s'"
  shows "\<exists>n. ready_after s n \<and> s' = s\<lparr>trace := trace s @ replicate (Suc n) (Readl DDA_STS)\<rparr>"
proof (rule ece_get_ed_size_wait.raw_induct
    [where P = "\<lambda>s s'. \<exists>n. ready_after s n
                  \<and> s' = s\<lparr>trace := trace s @ replicate (Suc n) (Readl DDA_STS)\<rparr>",
     OF _ assms], goal_cases)
  case (1 wait a b)
  let ?a1 = "a\<lparr>trace := trace a @ [Readl DDA_STS]\<rparr>"
  show ?case
  proof (cases "bit (sts_hw a (length (trace a))) 8")
    case True
    with 1(2) have "b = ?a1"
      by (simp add: ece_is_rect_compressed_eq bit8_and_CDREADY)
    with True have "ready_after a 0 \<and> b = a\<lparr>trace := trace a @ replicate (Suc 0) (Readl DDA_STS)\<rparr>"
      by (simp add: ready_after_0)
    then show ?thesis by blast
  next
    case False
    with 1(2) have "wait ?a1 = Some b"
      by (simp add: ece_is_rect_compressed_eq bit8_and_CDREADY)
    from 1(1) [OF this] obtain n where
      "ready_after ?a1 n" and "b = ?a1\<lparr>trace := trace ?a1 @ replicate (Suc n) (Readl DDA_STS)\<rparr>"
      by blast
    with False have "ready_after a (Suc n)
        \<and> b = a\<lparr>trace := trace a @ replicate (Suc (Suc n)) (Readl DDA_STS)\<rparr>"
      by (simp add: ready_after_Suc [where e = "Readl DDA_STS"])
    then show ?thesis by blast
  qed
qed

lemma ece_get_ed_size_wait_never:
  assumes "\<forall>n. \<not> bit (sts_hw s (length (trace s) + n)) 8"
  shows "ece_get_ed_size_wait s = None"
proof (cases "ece_get_ed_size_wait s")
  case None
  then show ?thesis .
next
  case (Some s')
  from ece_get_ed_size_wait_Some [OF this] obtain n where "ready_after s n" by blast
  with assms show ?thesis by (simp add: ready_after_def)
qed

lemma npcm750_ece_get_ed_size_wait_ready:
  "ready_after s n \<Longrightarrow>
   npcm750_ece_get_ed_size_wait s = Some (s\<lparr>trace := trace s @ replicate (Suc n) (Readl DDA_STS)\<rparr>)"
proof (induction n arbitrary: s)
  case 0
  then show ?case
    by (subst npcm750_ece_get_ed_size_wait.simps)
       (simp add: npcm750_ece_is_rect_compressed_eq ready_after_0)
next
  case (Suc n)
  let ?s' = "s\<lparr>trace := trace s @ [Readl DDA_STS]\<rparr>"
  from Suc.prems have nb: "\<not> bit (sts_hw s (length (trace s))) 8" and r: "ready_after ?s' n"
    by (simp_all add: ready_after_Suc [where e = "Readl DDA_STS"])
  have "npcm750_ece_get_ed_size_wait s = npcm750_ece_get_ed_size_wait ?s'"
    using nb by (subst npcm750_ece_get_ed_size_wait.simps)
       (simp add: npcm750_ece_is_rect_compressed_eq)
  also have "\<dots> = Some (?s'\<lparr>trace := trace ?s' @ replicate (Suc n) (Readl DDA_STS)\<rparr>)"
    by (rule Suc.IH [OF r])
  finally show ?case by simp
qed

lemma npcm750_ece_get_ed_size_wait_Some:
  assumes "npcm750_ece_get_ed_size_wait s = Some s'"
  shows "\<exists>n. ready_after s n \<and> s' = s\<lparr>trace := trace s @ replicate (Suc n) (Readl DDA_STS)\<rparr>"
proof (rule npcm750_ece_get_ed_size_wait.raw_induct
    [where P = "\<lambda>s s'. \<exists>n. ready_after s n
                  \<and> s' = s\<lparr>trace := trace s @ replicate (Suc n) (Readl DDA_STS)\<rparr>",
     OF _ assms], goal_cases)
  case (1 wait a b)
  let ?a1 = "a\<lparr>trace := trace a @ [Readl DDA_STS]\<rparr>"
  show ?case
  proof (cases "bit (sts_hw a (length (trace a))) 8")
    case True
    with 1(2) have "b = ?a1"
      by (simp add: npcm750_ece_is_rect_compressed_eq)
    with True have "ready_after a 0 \<and> b = a\<lparr>trace := trace a @ replicate (Suc 0) (Readl DDA_STS)\<rparr>"
      by (simp add: ready_after_0)
    then show ?thesis by blast
  next
    case False
    with 1(2) have "wait ?a1 = Some b"
      by (simp add: npcm750_ece_is_rect_compressed_eq)
    from 1(1) [OF this] obtain n where
      "ready_after ?a1 n" and "b = ?a1\<lparr>trace := trace ?a1 @ replicate (Suc n) (Readl DDA_STS)\<rparr>"
      by blast
    with False have "ready_after a (Suc n)
        \<and> b = a\<lparr>trace := trace a @ replicate (Suc (Suc n)) (Readl DDA_STS)\<rparr>"
      by (simp add: ready_after_Suc [where e = "Readl DDA_STS"])
    then show ?thesis by blast
  qed
qed

lemma npcm750_ece_get_ed_size_wait_never:
  assumes "\<forall>n. \<not> bit (sts_hw s (length (trace s) + n)) 8"
  shows "npcm750_ece_get_ed_size_wait s = None"
proof (cases "npcm750_ece_get_ed_size_wait s")
  case None
  then show ?thesis .
next
  case (Some s')
  from npcm750_ece_get_ed_size_wait_Some [OF this] obtain n where "ready_after s n" by blast
  with assms show ?thesis by (simp add: ready_after_def)
qed



section \<open>Line pitch\<close>

lemma legal_pitch_iff:
  "legal_pitch p = (p = 512 \<or> p = 1024 \<or> p = 2048 \<or> p = 2560 \<or> p = 4096)"
  by (simp add: legal_pitch_def)

lemma ece_set_lp_illegal: "\<not> legal_pitch p \<Longrightarrow> ece_set_lp s p = s"
  by (simp add: legal_pitch_iff ece_set_lp_def)

lemma npcm750_ece_set_lp_illegal: "\<not> legal_pitch p \<Longrightarrow> npcm750_ece_set_lp s p = s"
  by (simp add: legal_pitch_iff npcm750_ece_set_lp_def)

lemma ece_set_lp_lin_pitch:
  "lin_pitch (ece_set_lp s p) = (if legal_pitch p then p else lin_pitch s)"
  by (simp add: legal_pitch_iff ece_set_lp_def writel_def)

lemma npcm750_ece_set_lp_lin_pitch:
  "lin_pitch (npcm750_ece_set_lp s p) = (if legal_pitch p then p else lin_pitch s)"
  by (simp add: legal_pitch_iff npcm750_ece_set_lp_def npcm750_ece_write_def writel_def)

lemma ece_set_lp_regs:
  "regs (ece_set_lp s p) =
     (if p = 512 then (regs s)(RESOL := 0) else if p = 1024 then (regs s)(RESOL := 1)
      else if p = 2048 then (regs s)(RESOL := 2) else if p = 2560 then (regs s)(RESOL := 3)
      else if p = 4096 then (regs s)(RESOL := 4) else regs s)"
  by (simp add: ece_set_lp_def writel_def ece_lp_codes)

lemma npcm750_ece_set_lp_regs:
  "regs (npcm750_ece_set_lp s p) =
     (if p = 512 then (regs s)(RESOL := 0) else if p = 1024 then (regs s)(RESOL := 1)
      else if p = 2048 then (regs s)(RESOL := 2) else if p = 2560 then (regs s)(RESOL := 3)
      else if p = 4096 then (regs s)(RESOL := 4) else regs s)"
  by (simp add: npcm750_ece_set_lp_def npcm750_ece_write_def writel_def ece_lp_codes)

lemma legal_pitch_gate:
  "legal_pitch p \<Longrightarrow> sint p smod ECE_MIN_LP = 0 \<and> sint p \<le> ECE_MAX_LP"
  by (auto simp add: legal_pitch_iff ECE_MIN_LP_def ECE_MAX_LP_def)

lemma drv_ioctl_setlp_lin_pitch:
  "\<exists>s'. drv_ioctl s ECE_IOCSETLP (Some d) uwr = Some (0, No_Out, s')
        \<and> lin_pitch s' = (if legal_pitch (cmd_lp d) then cmd_lp d else lin_pitch s)
        \<and> regs s' RESOL = regs (ece_set_lp s (cmd_lp d)) RESOL"
  by (auto simp add: drv_ioctl_def Let_def ece_set_lp_lin_pitch ece_set_lp_illegal
      ece_set_enc_dba_def writel_def legal_pitch_gate ece_regs)

lemma npcm750_ece_ioctl_setlp:
  "npcm750_ece_ioctl m ECE_IOCSETLP (Some d) uwr =
     Some (0, No_Out, npcm750_ece_set_lp m (cmd_lp d))"
proof (cases "legal_pitch (cmd_lp d)")
  case True
  with legal_pitch_gate [OF True] show ?thesis
    by (simp add: npcm750_ece_ioctl_def)
next
  case False
  then show ?thesis
    by (simp add: npcm750_ece_ioctl_def npcm750_ece_set_lp_illegal)
qed


text \<open>
  Claim C6. In both drivers, setting the line pitch twice to the same legal value leaves
  the stored \<open>lin_pitch\<close> and the whole register window as one call does (and \<open>lin_pitch\<close>
  is that value); for every value that is not legal the call changes nothing at all, not
  even the trace of accesses; hence a legal \<open>lin_pitch\<close> stays legal, as is the value
  \<^verbatim>\<open>DEFAULT_LP\<close> that both drivers start with. The same holds of the \<^verbatim>\<open>ECE_IOCSETLP\<close>
  request, which always returns 0: it stores a legal pitch and leaves \<open>lin_pitch\<close> and
  \<^verbatim>\<open>RESOL\<close> alone otherwise.
\<close>

theorem set_lp_idempotent_and_guarded:
  "(legal_pitch p \<longrightarrow>
      lin_pitch (ece_set_lp s p) = p
      \<and> lin_pitch (ece_set_lp (ece_set_lp s p) p) = lin_pitch (ece_set_lp s p)
      \<and> regs (ece_set_lp (ece_set_lp s p) p) = regs (ece_set_lp s p)
      \<and> lin_pitch (npcm750_ece_set_lp s p) = p
      \<and> lin_pitch (npcm750_ece_set_lp (npcm750_ece_set_lp s p) p)
          = lin_pitch (npcm750_ece_set_lp s p)
      \<and> regs (npcm750_ece_set_lp (npcm750_ece_set_lp s p) p) = regs (npcm750_ece_set_lp s p))
   \<and> (\<not> legal_pitch p \<longrightarrow> ece_set_lp s p = s \<and> npcm750_ece_set_lp s p = s)
   \<and> (legal_pitch (lin_pitch s) \<longrightarrow>
        legal_pitch (lin_pitch (ece_set_lp s p))
        \<and> legal_pitch (lin_pitch (npcm750_ece_set_lp s p)))
   \<and> legal_pitch DEFAULT_LP
   \<and> (\<exists>v'. drv_ioctl v ECE_IOCSETLP (Some d) uwr = Some (0, No_Out, v')
          \<and> lin_pitch v' = (if legal_pitch (cmd_lp d) then cmd_lp d else lin_pitch v)
          \<and> (\<not> legal_pitch (cmd_lp d) \<longrightarrow> regs v' RESOL = regs v RESOL))
   \<and> npcm750_ece_ioctl s ECE_IOCSETLP (Some d) uwr =
        Some (0, No_Out, npcm750_ece_set_lp s (cmd_lp d))"
proof -
  have "\<exists>v'. drv_ioctl v ECE_IOCSETLP (Some d) uwr = Some (0, No_Out, v')
          \<and> lin_pitch v' = (if legal_pitch (cmd_lp d) then cmd_lp d else lin_pitch v)
          \<and> (\<not> legal_pitch (cmd_lp d) \<longrightarrow> regs v' RESOL = regs v RESOL)"
    using drv_ioctl_setlp_lin_pitch [of v d uwr] by (auto simp add: ece_set_lp_illegal)
  moreover have "legal_pitch DEFAULT_LP"
    by (simp add: legal_pitch_def DEFAULT_LP_def)
  ultimately show ?thesis
    by (simp add: ece_set_lp_lin_pitch npcm750_ece_set_lp_lin_pitch ece_set_lp_regs
      npcm750_ece_set_lp_regs ece_set_lp_illegal npcm750_ece_set_lp_illegal
      npcm750_ece_ioctl_setlp)
qed

theorem set_lp_idempotent_and_guarded_witness:
  "legal_pitch 1024 \<and> \<not> legal_pitch 1536 \<and> legal_pitch (lin_pitch example_dev)
   \<and> lin_pitch (ece_set_lp example_dev 1024) = 1024
   \<and> regs (ece_set_lp (ece_set_lp example_dev 1024) 1024) = regs (ece_set_lp example_dev 1024)
   \<and> regs (ece_set_lp example_dev 1024) RESOL = 1
   \<and> ece_set_lp example_dev 1536 = example_dev
   \<and> npcm750_ece_set_lp example_dev 1536 = example_dev
   \<and> legal_pitch (lin_pitch (npcm750_ece_set_lp example_dev 1024))
   \<and> npcm750_ece_ioctl example_dev ECE_IOCSETLP (Some (example_cmd\<lparr>cmd_lp := 1536\<rparr>)) True
       = Some (0, No_Out, example_dev)"
proof -
  note a = set_lp_idempotent_and_guarded [of 1024 example_dev example_dev example_cmd True]
  note b = set_lp_idempotent_and_guarded
             [of 1536 example_dev example_dev "example_cmd\<lparr>cmd_lp := 1536\<rparr>" True]
  have l: "legal_pitch 1024" "\<not> legal_pitch 1536" "legal_pitch (lin_pitch example_dev)"
    by (simp_all add: legal_pitch_def example_dev_def)
  have r: "regs (ece_set_lp example_dev 1024) RESOL = 1"
    by (simp add: ece_set_lp_regs)
  from a l r b show ?thesis by simp
qed

section \<open>Setting the frame-buffer address\<close>

lemma drv_ioctl_setfb:
  "drv_ioctl s ECE_IOCSETFB (Some d) uwr =
     (if cmd_framebuf d = 0 then Some (- EFAULT, No_Out, s)
      else Some (0, No_Out, writel (cmd_framebuf d) FBR_BA s))"
  by (simp add: drv_ioctl_def ece_set_fb_addr_def)

lemma npcm750_ece_ioctl_setfb:
  "npcm750_ece_ioctl s ECE_IOCSETFB (Some d) uwr =
     (if cmd_framebuf d = 0 then Some (- EFAULT, No_Out, s)
      else Some (0, No_Out, writel (cmd_framebuf d) FBR_BA s))"
  by (simp add: npcm750_ece_ioctl_def npcm750_ece_set_fb_addr_def npcm750_ece_write_def)

text \<open>
  Claim C8. In both drivers the \<^verbatim>\<open>ECE_IOCSETFB\<close> request with frame-buffer address 0
  returns the error \<^verbatim>\<open>-EFAULT\<close> (the code's error for this invalid argument) and leaves
  the whole state as it was: no register is written, no access is made. With any other
  address it returns 0 after exactly one access, the write of that address to
  \<^verbatim>\<open>FBR_BA\<close>.
\<close>

theorem set_framebuffer_address_zero_rejected:
  "(cmd_framebuf d = 0 \<longrightarrow>
      drv_ioctl s ECE_IOCSETFB (Some d) uwr = Some (- EFAULT, No_Out, s)
      \<and> npcm750_ece_ioctl m ECE_IOCSETFB (Some d) uwr = Some (- EFAULT, No_Out, m))
   \<and> (cmd_framebuf d \<noteq> 0 \<longrightarrow>
      (\<exists>s'. drv_ioctl s ECE_IOCSETFB (Some d) uwr = Some (0, No_Out, s')
            \<and> regs s' = (regs s)(FBR_BA := cmd_framebuf d)
            \<and> trace s' = trace s @ [Writel (cmd_framebuf d) FBR_BA])
      \<and> (\<exists>m'. npcm750_ece_ioctl m ECE_IOCSETFB (Some d) uwr = Some (0, No_Out, m')
            \<and> regs m' = (regs m)(FBR_BA := cmd_framebuf d)
            \<and> trace m' = trace m @ [Writel (cmd_framebuf d) FBR_BA]))
   \<and> - EFAULT \<noteq> 0"
  by (simp add: drv_ioctl_setfb npcm750_ece_ioctl_setfb writel_regs writel_trace EFAULT_def)

theorem set_framebuffer_address_zero_rejected_witness:
  "cmd_framebuf (example_cmd\<lparr>cmd_framebuf := 0\<rparr>) = 0
   \<and> drv_ioctl example_dev ECE_IOCSETFB (Some (example_cmd\<lparr>cmd_framebuf := 0\<rparr>)) True
       = Some (- 14, No_Out, example_dev)
   \<and> npcm750_ece_ioctl example_dev ECE_IOCSETFB (Some (example_cmd\<lparr>cmd_framebuf := 0\<rparr>)) True
       = Some (- 14, No_Out, example_dev)
   \<and> cmd_framebuf example_cmd \<noteq> 0
   \<and> (\<exists>s'. drv_ioctl example_dev ECE_IOCSETFB (Some example_cmd) True = Some (0, No_Out, s')
         \<and> regs s' FBR_BA = 0x2000000)
   \<and> (\<exists>m'. npcm750_ece_ioctl example_dev ECE_IOCSETFB (Some example_cmd) True
               = Some (0, No_Out, m')
         \<and> regs m' FBR_BA = 0x2000000)"
  using set_framebuffer_address_zero_rejected
          [of "example_cmd\<lparr>cmd_framebuf := 0\<rparr>" example_dev True example_dev]
        set_framebuffer_address_zero_rejected [of example_cmd example_dev True example_dev]
  by (auto simp add: example_cmd_def EFAULT_def)

section \<open>Reset\<close>

lemma word_en1: "((x::u32) AND - 2) OR 1 = x OR 1"
proof -
  have "((x::u32) AND NOT 1) OR 1 = x OR 1"
    by (rule bit_word_eqI) (auto simp add: bit_simps)
  then show ?thesis by simp
qed

lemma word_en2: "((x::u32) OR 1) AND - 2 = x AND - 2"
proof -
  have "((x::u32) OR 1) AND NOT 1 = x AND NOT 1"
    by (rule bit_word_eqI) (auto simp add: bit_simps)
  then show ?thesis by simp
qed

lemma npcm750_ece_update_bits_regs:
  "a \<noteq> DDA_STS \<Longrightarrow>
   regs (npcm750_ece_update_bits s a m b) = (regs s)(a := (regs s a AND NOT m) OR (b AND m))"
  by (simp add: npcm750_ece_update_bits_def readl_reg writel_regs)

lemma ece_reset_regs:
  "regs (ece_reset s) =
     (regs s)(DDA_CTRL := regs s DDA_CTRL OR 1, HEX_CTRL := regs s HEX_CTRL AND NOT 1,
              HEX_RECT_OFFSET := 0)"
proof -
  have "regs (ece_reset s) =
     (regs s)(DDA_CTRL := (regs s DDA_CTRL AND NOT 1) OR 1,
              HEX_CTRL := (regs s HEX_CTRL OR 1) AND NOT 1, HEX_RECT_OFFSET := 0)"
    by (simp add: ece_reset_def Let_def readl_reg reg_neqs writel_regs ECEEN_def ENCDIS_def
        if_distrib [where f = regs])
  then show ?thesis by (simp add: word_en1 word_en2)
qed

lemma npcm750_ece_reset_regs:
  "regs (npcm750_ece_reset s) =
     (regs s)(DDA_CTRL := regs s DDA_CTRL OR 1, HEX_CTRL := regs s HEX_CTRL AND NOT 1,
              HEX_RECT_OFFSET := 0)"
proof -
  have "regs (npcm750_ece_reset s) =
     (regs s)(DDA_CTRL := (regs s DDA_CTRL AND NOT 1) OR 1,
              HEX_CTRL := (regs s HEX_CTRL OR 1) AND NOT 1, HEX_RECT_OFFSET := 0)"
    apply (simp add: npcm750_ece_reset_def npcm750_ece_update_bits_regs reg_neqs
        npcm750_ece_clear_rect_offset_def npcm750_ece_write_def writel_regs
        DDA_CTRL_ECEEN_def HEX_CTRL_ENCDIS_def)
    apply (rule ext)
    apply (simp add: reg_neqs word_en1 word_en2)
    done
  then show ?thesis by (simp add: word_en1 word_en2)
qed

lemma bit0_or_1: "bit ((x::u32) OR 1) 0"
  by (simp add: bit_simps)

lemma bit0_and_not_1: "\<not> bit ((x::u32) AND - 2) 0"
proof -
  have "\<not> bit ((x::u32) AND NOT 1) 0" by (simp add: bit_simps)
  then show ?thesis by simp
qed

text \<open>
  Claim C9. From the same state, \<^verbatim>\<open>ece_reset\<close> and \<^verbatim>\<open>npcm750_ece_reset\<close> end with the
  same register window: the one they started from with bit 0 of \<^verbatim>\<open>DDA_CTRL\<close> set, bit 0
  of \<^verbatim>\<open>HEX_CTRL\<close> cleared and \<^verbatim>\<open>HEX_RECT_OFFSET\<close> zero.
\<close>

theorem reset_variants_same_final_registers:
  "regs (ece_reset s) = regs (npcm750_ece_reset s)
   \<and> regs (ece_reset s) =
       (regs s)(DDA_CTRL := regs s DDA_CTRL OR 1, HEX_CTRL := regs s HEX_CTRL AND NOT 1,
                HEX_RECT_OFFSET := 0)
   \<and> bit (regs (ece_reset s) DDA_CTRL) 0 \<and> bit (regs (npcm750_ece_reset s) DDA_CTRL) 0
   \<and> \<not> bit (regs (ece_reset s) HEX_CTRL) 0 \<and> \<not> bit (regs (npcm750_ece_reset s) HEX_CTRL) 0
   \<and> regs (ece_reset s) HEX_RECT_OFFSET = 0 \<and> regs (npcm750_ece_reset s) HEX_RECT_OFFSET = 0"
  by (simp add: ece_reset_regs npcm750_ece_reset_regs reg_neqs bit0_or_1 bit0_and_not_1)

theorem reset_variants_same_final_registers_witness:
  "regs (ece_reset example_dev) = regs (npcm750_ece_reset example_dev)
   \<and> regs (ece_reset example_dev) DDA_CTRL = 1
   \<and> regs (ece_reset example_dev) HEX_CTRL = 0x600
   \<and> regs (ece_reset example_dev) HEX_RECT_OFFSET = 0"
proof -
  note t = reset_variants_same_final_registers [of example_dev]
  have r: "regs example_dev DDA_CTRL = 0" "regs example_dev HEX_CTRL = 0x600"
    by (simp_all add: example_dev_def reg_neqs)
  from t have e: "regs (ece_reset example_dev) =
       (regs example_dev)(DDA_CTRL := regs example_dev DDA_CTRL OR 1,
          HEX_CTRL := regs example_dev HEX_CTRL AND NOT 1, HEX_RECT_OFFSET := 0)"
    by (rule conjunct2 [THEN conjunct1])
  from t have "regs (ece_reset example_dev) = regs (npcm750_ece_reset example_dev)"
    by (rule conjunct1)
  moreover have "regs (ece_reset example_dev) DDA_CTRL = 1"
    by (simp add: e r reg_neqs)
  moreover have "regs (ece_reset example_dev) HEX_CTRL = 0x600"
    by (simp add: e r reg_neqs)
  moreover have "regs (ece_reset example_dev) HEX_RECT_OFFSET = 0"
    by (simp add: e)
  ultimately show ?thesis by blast
qed

section \<open>The size word\<close>

lemma or_push_bit_nat:
  fixes a b :: nat
  assumes "a < 2 ^ n"
  shows "a OR push_bit n b = a + 2 ^ n * b"
proof -
  have ta: "take_bit n a = a" using assms by (simp add: take_bit_nat_eq_self)
  have "a + push_bit n b = a OR push_bit n b"
  proof (rule disjunctive_add)
    fix m
    show "\<not> bit a m \<or> \<not> bit (push_bit n b) m"
    proof (cases "m < n")
      case True
      then show ?thesis by (simp add: bit_push_bit_iff)
    next
      case False
      have "bit (take_bit n a) m = (m < n \<and> bit a m)" by (rule bit_take_bit_iff)
      with False ta show ?thesis by simp
    qed
  qed
  then show ?thesis by (simp add: push_bit_eq_mult mult.commute)
qed

lemma or_bytes_nat:
  fixes a0 a1 a2 a3 :: nat
  assumes "a0 < 2 ^ 8" "a1 < 2 ^ 8" "a2 < 2 ^ 8"
  shows "a0 OR push_bit 8 a1 OR push_bit 16 a2 OR push_bit 24 a3 =
         a0 + 2 ^ 8 * a1 + 2 ^ 16 * a2 + 2 ^ 24 * a3"
proof -
  have "push_bit 16 a2 OR push_bit 24 a3 = push_bit 16 (a2 OR push_bit 8 a3)"
    by (simp add: push_bit_or push_bit_push_bit)
  also have "\<dots> = push_bit 16 (a2 + 2 ^ 8 * a3)"
    using assms(3) by (simp only: or_push_bit_nat)
  finally have "push_bit 8 a1 OR push_bit 16 a2 OR push_bit 24 a3 =
      push_bit 8 (a1 OR push_bit 8 (a2 + 2 ^ 8 * a3))"
    by (simp add: push_bit_or push_bit_push_bit)
  also have "\<dots> = push_bit 8 (a1 + 2 ^ 8 * (a2 + 2 ^ 8 * a3))"
    using assms(2) by (simp only: or_push_bit_nat)
  finally have "a0 OR push_bit 8 a1 OR push_bit 16 a2 OR push_bit 24 a3 =
      a0 OR push_bit 8 (a1 + 2 ^ 8 * (a2 + 2 ^ 8 * a3))"
    by simp
  also have "\<dots> = a0 + 2 ^ 8 * (a1 + 2 ^ 8 * (a2 + 2 ^ 8 * a3))"
    using assms(1) by (simp only: or_push_bit_nat)
  finally show ?thesis by (simp add: algebra_simps)
qed

lemma unat_ucast_byte: "unat (ucast (x::u8) :: u32) = unat x"
proof -
  have "unat x < 2 ^ 8" using unsigned_less [of x] by simp
  then have "unat x < 2 ^ 32" by simp
  then show ?thesis by (simp add: unsigned_ucast_eq take_bit_nat_eq_self)
qed

lemma unat_push_bit_byte:
  assumes "n \<le> 24"
  shows "unat (push_bit n (ucast (x::u8) :: u32)) = push_bit n (unat x)"
proof -
  have "unat x < 2 ^ 8" using unsigned_less [of x] by simp
  then have "2 ^ n * unat x < 2 ^ n * 2 ^ 8" by simp
  also have "\<dots> = (2::nat) ^ (n + 8)" by (simp add: power_add)
  also have "\<dots> \<le> 2 ^ 32" using assms by (intro power_increasing) simp_all
  finally have "push_bit n (unat x) < 2 ^ 32" by (simp add: push_bit_eq_mult mult.commute)
  then show ?thesis
    by (simp add: unsigned_push_bit_eq unat_ucast_byte take_bit_nat_eq_self)
qed

lemma unat_ed_buffer_size:
  "unat (ed_buffer_size b) =
     unat (b 0) + 2 ^ 8 * unat (b 1) + 2 ^ 16 * unat (b 2) + 2 ^ 24 * unat (b 3)"
proof -
  have lt: "unat (b i) < 2 ^ 8" for i
    using unsigned_less [of "b i"] by simp
  have "unat (ed_buffer_size b) =
      unat (b 0) OR push_bit 8 (unat (b 1)) OR push_bit 16 (unat (b 2))
        OR push_bit 24 (unat (b 3))"
    by (simp add: ed_buffer_size_def unsigned_or_eq unat_ucast_byte unat_push_bit_byte)
  also have "\<dots> = unat (b 0) + 2 ^ 8 * unat (b 1) + 2 ^ 16 * unat (b 2) + 2 ^ 24 * unat (b 3)"
    by (rule or_bytes_nat) (rule lt)+
  finally show ?thesis .
qed

section \<open>The retry loop of the video driver\<close>

lemma ed_size_word_eq:
  "ed_size_word off s = (ed_size_at s off 0, s\<lparr>trace := trace s @ [ReadEd off]\<rparr>)"
  by (simp add: ed_size_word_def ed_size_at_def)

lemma ed_size_at_step:
  "ed_size_at (s\<lparr>trace := trace s @ [e]\<rparr>) off k = ed_size_at s off (Suc k)"
  by (simp add: ed_size_at_def)

lemma ece_get_ed_size_retry_unfold:
  "ece_get_ed_size_retry c s =
     (if ed_size_at s 0 0 = 0 \<and> c + 1 < 30
      then ece_get_ed_size_retry (c + 1) (s\<lparr>trace := trace s @ [ReadEd 0]\<rparr>)
      else (ed_size_at s 0 0, c + 1, s\<lparr>trace := trace s @ [ReadEd 0]\<rparr>))"
  by (subst ece_get_ed_size_retry.simps) (simp add: ed_size_word_eq Let_def)

lemma ece_get_ed_size_retry_shape:
  "\<exists>k. ece_get_ed_size_retry c s =
          (ed_size_at s 0 k, c + int k + 1,
           s\<lparr>trace := trace s @ replicate (Suc k) (ReadEd 0)\<rparr>)
       \<and> (\<forall>j<k. ed_size_at s 0 j = 0)
       \<and> (ed_size_at s 0 k \<noteq> 0 \<or> 30 \<le> c + int k + 1)
       \<and> (k = 0 \<or> c + int k + 1 \<le> 30)"
proof (induction c s rule: ece_get_ed_size_retry.induct)
  case (1 c s)
  let ?s1 = "s\<lparr>trace := trace s @ [ReadEd 0]\<rparr>"
  show ?case
  proof (cases "ed_size_at s 0 0 = 0 \<and> c + 1 < 30")
    case True
    have "\<exists>k. ece_get_ed_size_retry (c + 1) ?s1 =
          (ed_size_at ?s1 0 k, c + 1 + int k + 1,
           ?s1\<lparr>trace := trace ?s1 @ replicate (Suc k) (ReadEd 0)\<rparr>)
       \<and> (\<forall>j<k. ed_size_at ?s1 0 j = 0)
       \<and> (ed_size_at ?s1 0 k \<noteq> 0 \<or> 30 \<le> c + 1 + int k + 1)
       \<and> (k = 0 \<or> c + 1 + int k + 1 \<le> 30)"
      using True by (intro "1.IH" [of "ed_size_word 0 s" "ed_size_at s 0 0" ?s1 "c + 1"])
        (simp_all add: ed_size_word_eq)
    then obtain k where
      r: "ece_get_ed_size_retry (c + 1) ?s1 =
          (ed_size_at s 0 (Suc k), c + int (Suc k) + 1,
           s\<lparr>trace := trace s @ replicate (Suc (Suc k)) (ReadEd 0)\<rparr>)"
      and z: "\<forall>j<k. ed_size_at s 0 (Suc j) = 0"
      and st: "ed_size_at s 0 (Suc k) \<noteq> 0 \<or> 30 \<le> c + int (Suc k) + 1"
      and b: "k = 0 \<or> c + int (Suc k) + 1 \<le> 30"
      by (auto simp add: ed_size_at_step)
    have "ece_get_ed_size_retry c s = ece_get_ed_size_retry (c + 1) ?s1"
      by (subst ece_get_ed_size_retry_unfold) (rule if_P [OF True])
    with r have "ece_get_ed_size_retry c s =
          (ed_size_at s 0 (Suc k), c + int (Suc k) + 1,
           s\<lparr>trace := trace s @ replicate (Suc (Suc k)) (ReadEd 0)\<rparr>)"
      by simp
    moreover from True z have "\<forall>j<Suc k. ed_size_at s 0 j = 0"
      by (simp add: All_less_Suc2)
    moreover from True b have "Suc k = 0 \<or> c + int (Suc k) + 1 \<le> 30"
      by auto
    ultimately show ?thesis using st by blast
  next
    case False
    have "ece_get_ed_size_retry c s = (ed_size_at s 0 0, c + 1, ?s1)"
      by (subst ece_get_ed_size_retry_unfold) (rule if_not_P [OF False])
    then have "ece_get_ed_size_retry c s =
          (ed_size_at s 0 0, c + int 0 + 1,
           s\<lparr>trace := trace s @ replicate (Suc 0) (ReadEd 0)\<rparr>)"
      by simp
    moreover from False have "ed_size_at s 0 0 \<noteq> 0 \<or> 30 \<le> c + int 0 + 1"
      by auto
    ultimately show ?thesis by blast
  qed
qed

section \<open>Waiting for the engine and reading the size\<close>

lemma or_CDREADY_bit8: "bit ((v::u32) OR CDREADY) 8"
  unfolding CDREADY_exp by (simp only: bit_or_iff bit_exp_iff) simp

lemma update_CDREADY: "((v::u32) AND NOT DDA_STS_CDREADY) OR DDA_STS_CDREADY = v OR CDREADY"
proof -
  have e: "DDA_STS_CDREADY = CDREADY" by (simp add: DDA_STS_CDREADY_def CDREADY_def)
  have "(v AND NOT CDREADY) OR CDREADY = v OR CDREADY"
    by (rule bit_word_eqI) (auto simp add: bit_and_iff bit_or_iff bit_not_iff)
  then show ?thesis by (simp only: e)
qed

lemma ece_clear_drs_eq:
  "ece_clear_drs s =
     s\<lparr>regs := (regs s)(DDA_STS := sts_hw s (length (trace s)) OR CDREADY),
       trace := trace s @ [Readl DDA_STS,
                           Writel (sts_hw s (length (trace s)) OR CDREADY) DDA_STS,
                           Readl DDA_STS]\<rparr>"
  by (simp add: ece_clear_drs_def readl_def writel_def Let_def)

lemma npcm750_ece_clear_drs_eq:
  "npcm750_ece_clear_drs s =
     s\<lparr>regs := (regs s)(DDA_STS := sts_hw s (length (trace s)) OR CDREADY),
       trace := trace s @ [Readl DDA_STS,
                           Writel (sts_hw s (length (trace s)) OR CDREADY) DDA_STS]\<rparr>"
  by (simp add: npcm750_ece_clear_drs_def npcm750_ece_update_bits_def readl_def writel_def
      update_CDREADY Let_def del: bit.conj_disj_distrib bit.conj_disj_distrib2)

lemma npcm750_ece_get_ed_size_ready:
  assumes "ready_after s n"
  shows "npcm750_ece_get_ed_size s offset =
     Some (ed_size_at s (unat offset) (Suc n),
           s\<lparr>regs := (regs s)(DDA_STS := sts_hw s (length (trace s) + n + 2) OR CDREADY),
             trace := trace s @ replicate (Suc n) (Readl DDA_STS)
                      @ [ReadEd (unat offset), Readl DDA_STS,
                         Writel (sts_hw s (length (trace s) + n + 2) OR CDREADY) DDA_STS]\<rparr>)"
  by (simp add: npcm750_ece_get_ed_size_def npcm750_ece_get_ed_size_wait_ready [OF assms]
      ed_size_word_eq npcm750_ece_clear_drs_eq ed_size_at_def)

lemma ed_size_at_after_wait:
  "ed_size_at (s\<lparr>trace := trace s @ es\<rparr>) off j = ed_size_at s off (length es + j)"
  by (simp add: ed_size_at_def add.assoc)

lemma ece_get_ed_size_shape:
  assumes "ready_after s n"
  shows "\<exists>k<30. (\<forall>j<k. ed_size_at s 0 (Suc n + j) = 0)
            \<and> (ed_size_at s 0 (Suc n + k) \<noteq> 0 \<or> k = 29)
            \<and> ece_get_ed_size s =
                Some (ed_size_at s 0 (Suc n + k),
                  s\<lparr>regs := (regs s)
                         (DDA_STS := sts_hw s (length (trace s) + n + k + 2) OR CDREADY),
                    trace := trace s @ replicate (Suc n) (Readl DDA_STS)
                       @ replicate (Suc k) (ReadEd 0)
                       @ [Readl DDA_STS,
                          Writel (sts_hw s (length (trace s) + n + k + 2) OR CDREADY) DDA_STS,
                          Readl DDA_STS]\<rparr>)"
proof -
  let ?s1 = "s\<lparr>trace := trace s @ replicate (Suc n) (Readl DDA_STS)\<rparr>"
  have w: "ece_get_ed_size_wait s = Some ?s1"
    by (rule ece_get_ed_size_wait_ready [OF assms])
  from ece_get_ed_size_retry_shape [of 0 ?s1] obtain k where
    r: "ece_get_ed_size_retry 0 ?s1 =
          (ed_size_at ?s1 0 k, int k + 1,
           ?s1\<lparr>trace := trace ?s1 @ replicate (Suc k) (ReadEd 0)\<rparr>)"
    and z: "\<forall>j<k. ed_size_at ?s1 0 j = 0"
    and st: "ed_size_at ?s1 0 k \<noteq> 0 \<or> 30 \<le> int k + 1"
    and b: "k = 0 \<or> int k + 1 \<le> 30"
    by auto
  from b have k30: "k < 30" by auto
  from st k30 have st': "ed_size_at s 0 (Suc n + k) \<noteq> 0 \<or> k = 29"
    by (auto simp add: ed_size_at_after_wait)
  from z have z': "\<forall>j<k. ed_size_at s 0 (Suc n + j) = 0"
    by (simp add: ed_size_at_after_wait)
  have "ece_get_ed_size s =
          Some (ed_size_at s 0 (Suc n + k),
                  s\<lparr>regs := (regs s)
                         (DDA_STS := sts_hw s (length (trace s) + n + k + 2) OR CDREADY),
                    trace := trace s @ replicate (Suc n) (Readl DDA_STS)
                       @ replicate (Suc k) (ReadEd 0)
                       @ [Readl DDA_STS,
                          Writel (sts_hw s (length (trace s) + n + k + 2) OR CDREADY) DDA_STS,
                          Readl DDA_STS]\<rparr>)"
  proof -
    have "ece_get_ed_size s =
        (let (size, count, ece) = ece_get_ed_size_retry 0 ?s1;
             ece = ece_clear_drs ece
         in Some (size, ece))"
      by (simp only: ece_get_ed_size_def w option.case)
    also have "\<dots> = Some (ed_size_at ?s1 0 k,
        ece_clear_drs (?s1\<lparr>trace := trace ?s1 @ replicate (Suc k) (ReadEd 0)\<rparr>))"
      by (simp only: r Let_def prod.case)
    finally show ?thesis
      by (simp add: ece_clear_drs_eq ed_size_at_after_wait add.assoc)
  qed
  with k30 z' st' show ?thesis by blast
qed

lemma first_nonzero_unique:
  fixes f :: "nat \<Rightarrow> u32"
  assumes "\<forall>j<k. f j = 0" "f k \<noteq> 0 \<or> k = 29" "k < 30"
    and "\<forall>j<k'. f j = 0" "f k' \<noteq> 0 \<or> k' = 29" "k' < 30"
  shows "k = k'"
proof (rule ccontr)
  assume "k \<noteq> k'"
  then consider "k < k'" | "k' < k" by (auto simp add: nat_neq_iff)
  then show False
  proof cases
    case 1
    with assms(4) have "f k = 0" by simp
    with assms(2) have "k = 29" by simp
    with 1 assms(6) show False by simp
  next
    case 2
    with assms(1) have "f k' = 0" by simp
    with assms(5) have "k' = 29" by simp
    with 2 assms(3) show False by simp
  qed
qed

lemma ece_get_ed_size_at:
  assumes "ready_after s n" and "\<forall>j<k. ed_size_at s 0 (Suc n + j) = 0"
    and "ed_size_at s 0 (Suc n + k) \<noteq> 0 \<or> k = 29" and "k < 30"
  shows "ece_get_ed_size s =
          Some (ed_size_at s 0 (Suc n + k),
                  s\<lparr>regs := (regs s)
                         (DDA_STS := sts_hw s (length (trace s) + n + k + 2) OR CDREADY),
                    trace := trace s @ replicate (Suc n) (Readl DDA_STS)
                       @ replicate (Suc k) (ReadEd 0)
                       @ [Readl DDA_STS,
                          Writel (sts_hw s (length (trace s) + n + k + 2) OR CDREADY) DDA_STS,
                          Readl DDA_STS]\<rparr>)"
proof -
  from ece_get_ed_size_shape [OF assms(1)] obtain k' where
    k': "k' < 30" "\<forall>j<k'. ed_size_at s 0 (Suc n + j) = 0"
      "ed_size_at s 0 (Suc n + k') \<noteq> 0 \<or> k' = 29"
    and r: "ece_get_ed_size s =
          Some (ed_size_at s 0 (Suc n + k'),
                  s\<lparr>regs := (regs s)
                         (DDA_STS := sts_hw s (length (trace s) + n + k' + 2) OR CDREADY),
                    trace := trace s @ replicate (Suc n) (Readl DDA_STS)
                       @ replicate (Suc k') (ReadEd 0)
                       @ [Readl DDA_STS,
                          Writel (sts_hw s (length (trace s) + n + k' + 2) OR CDREADY) DDA_STS,
                          Readl DDA_STS]\<rparr>)"
    by blast
  have "k = k'"
    by (rule first_nonzero_unique [where f = "\<lambda>j. ed_size_at s 0 (Suc n + j)"])
       (use assms k' in simp_all)
  with r show ?thesis by simp
qed

lemma ece_get_ed_size_never:
  assumes "\<forall>i. \<not> bit (sts_hw s (length (trace s) + i)) 8"
  shows "ece_get_ed_size s = None"
  by (simp add: ece_get_ed_size_def ece_get_ed_size_wait_never [OF assms])

lemma npcm750_ece_get_ed_size_never:
  assumes "\<forall>i. \<not> bit (sts_hw s (length (trace s) + i)) 8"
  shows "npcm750_ece_get_ed_size s offset = None"
  by (simp add: npcm750_ece_get_ed_size_def npcm750_ece_get_ed_size_wait_never [OF assms])

lemma bit8_0x100: "bit (0x100::u32) 8"
proof -
  have "bit ((2::u32) ^ 8) 8" by (simp only: bit_exp_iff) simp
  then show ?thesis by simp
qed

lemma example_dev_ready: "ready_after example_dev 8"
  by (simp add: ready_after_def example_dev_def bit8_0x100)

lemma example_dev_sizes:
  "\<forall>j<2. ed_size_at example_dev 0 (Suc 8 + j) = 0"
  "ed_size_at example_dev 0 (Suc 8 + 2) = 298"
  "ed_size_at example_dev 0 11 = 298"
  by (simp_all add: ed_size_at_def example_dev_def ed_buffer_size_def)

text \<open>
  Claim C5. Once the video driver's \<^verbatim>\<open>ece_get_ed_size\<close> has seen the ready bit (after
  \<open>n\<close> polls that saw it clear), it never polls the status register again before the
  final clear: it reads the size word \<open>k + 1\<close> times for some \<open>k < 30\<close>, so at most 30
  times; every read before the last decoded 0; the last read either decoded a non-zero
  size or was the thirtieth; and the size returned is the one decoded last. Conversely
  the \<open>k\<close> with these properties determines the result.
\<close>

theorem bounded_retry_on_zero_size:
  assumes "ready_after s n"
  shows "(\<exists>k<30. (\<forall>j<k. ed_size_at s 0 (Suc n + j) = 0)
            \<and> (ed_size_at s 0 (Suc n + k) \<noteq> 0 \<or> k = 29)
            \<and> (\<exists>s'. ece_get_ed_size s = Some (ed_size_at s 0 (Suc n + k), s')
                  \<and> trace s' = trace s @ replicate (Suc n) (Readl DDA_STS)
                       @ replicate (Suc k) (ReadEd 0)
                       @ [Readl DDA_STS,
                          Writel (sts_hw s (length (trace s) + n + k + 2) OR CDREADY) DDA_STS,
                          Readl DDA_STS]))
         \<and> (k < 30 \<and> (\<forall>j<k. ed_size_at s 0 (Suc n + j) = 0)
              \<and> (ed_size_at s 0 (Suc n + k) \<noteq> 0 \<or> k = 29) \<longrightarrow>
             ece_get_ed_size s =
               Some (ed_size_at s 0 (Suc n + k),
                  s\<lparr>regs := (regs s)
                         (DDA_STS := sts_hw s (length (trace s) + n + k + 2) OR CDREADY),
                    trace := trace s @ replicate (Suc n) (Readl DDA_STS)
                       @ replicate (Suc k) (ReadEd 0)
                       @ [Readl DDA_STS,
                          Writel (sts_hw s (length (trace s) + n + k + 2) OR CDREADY) DDA_STS,
                          Readl DDA_STS]\<rparr>))"
proof (intro conjI impI)
  from ece_get_ed_size_shape [OF assms] obtain k0 where
    "k0 < 30" "\<forall>j<k0. ed_size_at s 0 (Suc n + j) = 0"
    "ed_size_at s 0 (Suc n + k0) \<noteq> 0 \<or> k0 = 29"
    and r: "ece_get_ed_size s =
                Some (ed_size_at s 0 (Suc n + k0),
                  s\<lparr>regs := (regs s)
                         (DDA_STS := sts_hw s (length (trace s) + n + k0 + 2) OR CDREADY),
                    trace := trace s @ replicate (Suc n) (Readl DDA_STS)
                       @ replicate (Suc k0) (ReadEd 0)
                       @ [Readl DDA_STS,
                          Writel (sts_hw s (length (trace s) + n + k0 + 2) OR CDREADY) DDA_STS,
                          Readl DDA_STS]\<rparr>)"
    by blast
  moreover from r have "\<exists>s'. ece_get_ed_size s = Some (ed_size_at s 0 (Suc n + k0), s')
                  \<and> trace s' = trace s @ replicate (Suc n) (Readl DDA_STS)
                       @ replicate (Suc k0) (ReadEd 0)
                       @ [Readl DDA_STS,
                          Writel (sts_hw s (length (trace s) + n + k0 + 2) OR CDREADY) DDA_STS,
                          Readl DDA_STS]"
    by simp
  ultimately show "\<exists>k<30. (\<forall>j<k. ed_size_at s 0 (Suc n + j) = 0)
            \<and> (ed_size_at s 0 (Suc n + k) \<noteq> 0 \<or> k = 29)
            \<and> (\<exists>s'. ece_get_ed_size s = Some (ed_size_at s 0 (Suc n + k), s')
                  \<and> trace s' = trace s @ replicate (Suc n) (Readl DDA_STS)
                       @ replicate (Suc k) (ReadEd 0)
                       @ [Readl DDA_STS,
                          Writel (sts_hw s (length (trace s) + n + k + 2) OR CDREADY) DDA_STS,
                          Readl DDA_STS])"
    by blast
next
  assume "k < 30 \<and> (\<forall>j<k. ed_size_at s 0 (Suc n + j) = 0)
              \<and> (ed_size_at s 0 (Suc n + k) \<noteq> 0 \<or> k = 29)"
  then show "ece_get_ed_size s =
               Some (ed_size_at s 0 (Suc n + k),
                  s\<lparr>regs := (regs s)
                         (DDA_STS := sts_hw s (length (trace s) + n + k + 2) OR CDREADY),
                    trace := trace s @ replicate (Suc n) (Readl DDA_STS)
                       @ replicate (Suc k) (ReadEd 0)
                       @ [Readl DDA_STS,
                          Writel (sts_hw s (length (trace s) + n + k + 2) OR CDREADY) DDA_STS,
                          Readl DDA_STS]\<rparr>)"
    by (intro ece_get_ed_size_at [OF assms]) simp_all
qed

theorem bounded_retry_on_zero_size_witness:
  "ready_after example_dev 8
   \<and> ed_size_at example_dev 0 9 = 0 \<and> ed_size_at example_dev 0 10 = 0
   \<and> ed_size_at example_dev 0 11 = 298
   \<and> ece_get_ed_size example_dev =
          Some (298,
            example_dev\<lparr>regs := (regs example_dev)(DDA_STS := 0x100),
              trace := replicate 9 (Readl DDA_STS) @ replicate 3 (ReadEd 0)
                       @ [Readl DDA_STS, Writel 0x100 DDA_STS, Readl DDA_STS]\<rparr>)"
proof -
  have z: "ed_size_at example_dev 0 9 = 0" "ed_size_at example_dev 0 10 = 0"
    by (simp_all add: ed_size_at_def example_dev_def ed_buffer_size_def)
  have t: "trace example_dev = []" and h: "sts_hw example_dev 12 = 0x100"
    by (simp_all add: example_dev_def)
  have prem: "(2::nat) < 30 \<and> (\<forall>j<2. ed_size_at example_dev 0 (Suc 8 + j) = 0)
      \<and> (ed_size_at example_dev 0 (Suc 8 + 2) \<noteq> 0 \<or> (2::nat) = 29)"
    using example_dev_sizes by simp
  from bounded_retry_on_zero_size [OF example_dev_ready, of 2, THEN conjunct2, THEN mp, OF prem]
  have "ece_get_ed_size example_dev =
          Some (298,
            example_dev\<lparr>regs := (regs example_dev)(DDA_STS := 0x100 OR CDREADY),
              trace := replicate (Suc 8) (Readl DDA_STS) @ replicate (Suc 2) (ReadEd 0)
                       @ [Readl DDA_STS, Writel (0x100 OR CDREADY) DDA_STS, Readl DDA_STS]\<rparr>)"
    by (simp add: t h example_dev_sizes)
  then have "ece_get_ed_size example_dev =
          Some (298,
            example_dev\<lparr>regs := (regs example_dev)(DDA_STS := 0x100),
              trace := replicate 9 (Readl DDA_STS) @ replicate 3 (ReadEd 0)
                       @ [Readl DDA_STS, Writel 0x100 DDA_STS, Readl DDA_STS]\<rparr>)"
    by (simp add: CDREADY_def)
  with example_dev_ready example_dev_sizes z show ?thesis by simp
qed

section \<open>The encode request and its gap length\<close>

lemma drop_bit_and_ENC_GAP: "drop_bit 8 ((v::u32) AND 0x1f00) = take_bit 5 (drop_bit 8 v)"
proof -
  have e: "drop_bit 8 (0x1f00::u32) = mask 5"
    by (simp add: drop_bit_eq_div mask_eq_exp_minus_1)
  have "drop_bit 8 (v AND 0x1f00) = drop_bit 8 v AND drop_bit 8 0x1f00"
    by (rule drop_bit_and)
  then show ?thesis by (simp only: e take_bit_eq_mask)
qed

lemma ece_enc_rect_eq:
  "ece_enc_rect s x y w h =
     s\<lparr>regs := (regs s)(DDA_CTRL := (regs s DDA_CTRL AND NOT ECEEN) OR ECEEN,
                        RECT_XY := y * lin_pitch s + x * 2,
                        RECT_DIMEN := rect_dimen_temp (enc_rect_tiles w h)),
       trace := trace s @ [Readl DDA_CTRL, Writel (regs s DDA_CTRL AND NOT ECEEN) DDA_CTRL,
                           Writel ((regs s DDA_CTRL AND NOT ECEEN) OR ECEEN) DDA_CTRL,
                           Writel (y * lin_pitch s + x * 2) RECT_XY,
                           Writel (rect_dimen_temp (enc_rect_tiles w h)) RECT_DIMEN]\<rparr>"
  by (simp add: ece_enc_rect_def fifo_reset_bypass_def readl_reg reg_neqs writel_def Let_def)

lemma ece_get_ed_size_Some:
  assumes "ece_get_ed_size s = Some (sz, s')"
  shows "\<exists>n k. ready_after s n \<and> sz = ed_size_at s 0 (Suc n + k)
           \<and> s' = s\<lparr>regs := (regs s)
                         (DDA_STS := sts_hw s (length (trace s) + n + k + 2) OR CDREADY),
                    trace := trace s @ replicate (Suc n) (Readl DDA_STS)
                       @ replicate (Suc k) (ReadEd 0)
                       @ [Readl DDA_STS,
                          Writel (sts_hw s (length (trace s) + n + k + 2) OR CDREADY) DDA_STS,
                          Readl DDA_STS]\<rparr>"
proof (cases "ece_get_ed_size_wait s")
  case None
  with assms show ?thesis by (simp add: ece_get_ed_size_def)
next
  case (Some s1)
  from ece_get_ed_size_wait_Some [OF Some] obtain n where n: "ready_after s n" by blast
  from ece_get_ed_size_shape [OF n] assms n show ?thesis by auto
qed

lemma npcm750_ece_get_ed_size_Some:
  assumes "npcm750_ece_get_ed_size s offset = Some (sz, s')"
  shows "\<exists>n. ready_after s n \<and> sz = ed_size_at s (unat offset) (Suc n)
           \<and> s' = s\<lparr>regs := (regs s)(DDA_STS := sts_hw s (length (trace s) + n + 2) OR CDREADY),
             trace := trace s @ replicate (Suc n) (Readl DDA_STS)
                      @ [ReadEd (unat offset), Readl DDA_STS,
                         Writel (sts_hw s (length (trace s) + n + 2) OR CDREADY) DDA_STS]\<rparr>"
proof (cases "npcm750_ece_get_ed_size_wait s")
  case None
  with assms show ?thesis by (simp add: npcm750_ece_get_ed_size_def)
next
  case (Some s1)
  from npcm750_ece_get_ed_size_wait_Some [OF Some] obtain n where n: "ready_after s n" by blast
  from npcm750_ece_get_ed_size_ready [OF n, of offset] assms n show ?thesis by auto
qed

lemma reg_neqs2:
  "HEX_CTRL \<noteq> RECT_XY" "HEX_CTRL \<noteq> RECT_DIMEN" "RECT_XY \<noteq> DDA_STS" "RECT_DIMEN \<noteq> DDA_STS"
  by (simp_all add: ece_regs)

lemma ece_enc_rect_HEX_CTRL: "regs (ece_enc_rect s x y w h) HEX_CTRL = regs s HEX_CTRL"
  by (simp add: ece_enc_rect_eq reg_neqs reg_neqs2)

lemma npcm750_ece_enc_rect_HEX_CTRL:
  "regs (npcm750_ece_enc_rect s x y w h) HEX_CTRL = regs s HEX_CTRL"
  by (simp add: npcm750_ece_enc_rect_def npcm750_ece_fifo_reset_bypass_def
      npcm750_ece_update_bits_regs npcm750_ece_write_def writel_regs reg_neqs reg_neqs2 Let_def)

lemma and_31: "(x::u32) AND 31 = take_bit 5 x"
  by (simp add: take_bit_eq_mask mask_eq_exp_minus_1)

lemma drv_ioctl_geted:
  assumes "ece_get_ed_size (ece_enc_rect s (cmd_x d) (cmd_y d) (cmd_w d) (cmd_h d)) = Some (sz, e)"
  shows "drv_ioctl s ECE_IOCGETED (Some d) uwr =
     (let g = (if hex_ctrl_gap (regs s HEX_CTRL) = 0 then 4
               else hex_ctrl_gap (regs s HEX_CTRL));
          e' = e\<lparr>regs := (regs e)(HEX_RECT_OFFSET := 0),
                 trace := trace e @ [Writel 0 HEX_RECT_OFFSET, Readl HEX_CTRL],
                 enc_gap := g\<rparr>
      in if uwr then Some (0, Out_Cmd (d\<lparr>cmd_gap_len := g, cmd_len := sz\<rparr>), e')
         else Some (- EFAULT, No_Out, e'))"
proof -
  from ece_get_ed_size_Some [OF assms] obtain rg tr where
    e: "e = (ece_enc_rect s (cmd_x d) (cmd_y d) (cmd_w d) (cmd_h d))\<lparr>regs := rg, trace := tr\<rparr>"
    and rg: "rg HEX_CTRL = regs (ece_enc_rect s (cmd_x d) (cmd_y d) (cmd_w d) (cmd_h d)) HEX_CTRL"
    by (auto simp add: reg_neqs)
  from rg have h: "regs e HEX_CTRL = regs s HEX_CTRL"
    by (simp add: e ece_enc_rect_HEX_CTRL)
  show ?thesis
    by (simp add: drv_ioctl_def assms ece_clear_rect_offset_def readl_reg reg_neqs writel_def
        writel_regs h ENC_GAP_def ENC_GAP_OFFSET_def ENC_MIN_GAP_SIZE_def drop_bit_and_ENC_GAP and_31 hex_ctrl_gap_def Let_def)
qed

lemma npcm750_ece_read_rect_offset_eq:
  "npcm750_ece_read_rect_offset m =
     (regs m HEX_RECT_OFFSET, m\<lparr>trace := trace m @ [Readl HEX_RECT_OFFSET]\<rparr>)"
  by (simp add: npcm750_ece_read_rect_offset_def npcm750_ece_read_def readl_reg reg_neqs)

lemma npcm750_ece_update_bits_trace:
  "a \<noteq> DDA_STS \<Longrightarrow>
   trace (npcm750_ece_update_bits s a m b) =
     trace s @ [Readl a, Writel ((regs s a AND NOT m) OR (b AND m)) a]"
  by (simp add: npcm750_ece_update_bits_def readl_reg writel_def Let_def)

lemma npcm750_ece_enc_rect_trace:
  "length (trace (npcm750_ece_enc_rect s x y w h)) = length (trace s) + 6"
  by (simp add: npcm750_ece_enc_rect_def npcm750_ece_fifo_reset_bypass_def
      npcm750_ece_update_bits_trace npcm750_ece_write_def writel_trace reg_neqs Let_def)

lemma npcm750_ece_update_bits_sts_hw:
  "sts_hw (npcm750_ece_update_bits s a m b) = sts_hw s"
  by (simp add: npcm750_ece_update_bits_def readl_def writel_def Let_def split_def)

lemma npcm750_ece_enc_rect_sts_hw: "sts_hw (npcm750_ece_enc_rect s x y w h) = sts_hw s"
  by (simp add: npcm750_ece_enc_rect_def npcm750_ece_fifo_reset_bypass_def
      npcm750_ece_update_bits_sts_hw npcm750_ece_write_def writel_def Let_def)

lemma npcm750_ece_ioctl_geted:
  assumes "npcm750_ece_get_ed_size
             (npcm750_ece_enc_rect (m\<lparr>trace := trace m @ [Readl HEX_RECT_OFFSET]\<rparr>)
                (cmd_x d) (cmd_y d) (cmd_w d) (cmd_h d))
             (regs m HEX_RECT_OFFSET) = Some (sz, e)"
  shows "npcm750_ece_ioctl m ECE_IOCGETED (Some d) uwr =
     (let g = (if hex_ctrl_gap (regs m HEX_CTRL) = 0 then 4
               else hex_ctrl_gap (regs m HEX_CTRL));
          e' = e\<lparr>trace := trace e @ [Readl HEX_CTRL], enc_gap := g\<rparr>
      in if uwr then Some (0, Out_Cmd (d\<lparr>cmd_gap_len := g, cmd_len := sz\<rparr>), e')
         else Some (- EFAULT, No_Out, e'))"
proof -
  let ?m2 = "npcm750_ece_enc_rect (m\<lparr>trace := trace m @ [Readl HEX_RECT_OFFSET]\<rparr>)
                (cmd_x d) (cmd_y d) (cmd_w d) (cmd_h d)"
  from npcm750_ece_get_ed_size_Some [OF assms] obtain rg tr where
    e: "e = ?m2\<lparr>regs := rg, trace := tr\<rparr>" and rg: "rg HEX_CTRL = regs ?m2 HEX_CTRL"
    by (auto simp add: reg_neqs)
  from rg have h: "regs e HEX_CTRL = regs m HEX_CTRL"
    by (simp add: e npcm750_ece_enc_rect_HEX_CTRL)
  show ?thesis
    by (simp add: npcm750_ece_ioctl_def npcm750_ece_read_rect_offset_eq assms
        npcm750_ece_read_def readl_reg reg_neqs h HEX_CTRL_ENC_GAP_def
        HEX_CTRL_ENC_GAP_OFFSET_def HEX_CTRL_ENC_MIN_GAP_SIZE_def drop_bit_and_ENC_GAP and_31 hex_ctrl_gap_def Let_def)
qed

lemma drv_ioctl_geted_Some:
  assumes "drv_ioctl s ECE_IOCGETED (Some d) uwr = Some r"
  shows "\<exists>sz e. ece_get_ed_size (ece_enc_rect s (cmd_x d) (cmd_y d) (cmd_w d) (cmd_h d))
                  = Some (sz, e)"
  using assms by (cases "ece_get_ed_size (ece_enc_rect s (cmd_x d) (cmd_y d) (cmd_w d) (cmd_h d))")
    (auto simp add: drv_ioctl_def)

lemma npcm750_ece_ioctl_geted_Some:
  assumes "npcm750_ece_ioctl m ECE_IOCGETED (Some d) uwr = Some r"
  shows "\<exists>sz e. npcm750_ece_get_ed_size
             (npcm750_ece_enc_rect (m\<lparr>trace := trace m @ [Readl HEX_RECT_OFFSET]\<rparr>)
                (cmd_x d) (cmd_y d) (cmd_w d) (cmd_h d))
             (regs m HEX_RECT_OFFSET) = Some (sz, e)"
  using assms
  by (cases "npcm750_ece_get_ed_size
             (npcm750_ece_enc_rect (m\<lparr>trace := trace m @ [Readl HEX_RECT_OFFSET]\<rparr>)
                (cmd_x d) (cmd_y d) (cmd_w d) (cmd_h d))
             (regs m HEX_RECT_OFFSET)")
    (auto simp add: npcm750_ece_ioctl_def npcm750_ece_read_rect_offset_eq)

lemma example_enc_rect_ready:
  "ready_after (ece_enc_rect example_dev (cmd_x example_cmd) (cmd_y example_cmd)
                  (cmd_w example_cmd) (cmd_h example_cmd)) 3"
  by (simp add: ready_after_def ece_enc_rect_eq)
     (simp add: example_dev_def bit8_0x100 less_Suc_eq numeral_3_eq_3)

lemma example_npcm750_enc_rect_ready:
  "ready_after (npcm750_ece_enc_rect
                  (example_dev\<lparr>trace := trace example_dev @ [Readl HEX_RECT_OFFSET]\<rparr>)
                  (cmd_x example_cmd) (cmd_y example_cmd)
                  (cmd_w example_cmd) (cmd_h example_cmd)) 1"
  by (simp add: ready_after_def npcm750_ece_enc_rect_trace npcm750_ece_enc_rect_sts_hw)
     (simp add: example_dev_def bit8_0x100)

lemma example_gap: "hex_ctrl_gap (regs example_dev HEX_CTRL) = 6"
  by (simp add: hex_ctrl_gap_def example_dev_def drop_bit_eq_div take_bit_eq_mod)

lemma unat_ed_size_at:
  "unat (ed_size_at s off t) =
     unat (ed_hw s (length (trace s) + t) off)
     + 2 ^ 8 * unat (ed_hw s (length (trace s) + t) (off + 1))
     + 2 ^ 16 * unat (ed_hw s (length (trace s) + t) (off + 2))
     + 2 ^ 24 * unat (ed_hw s (length (trace s) + t) (off + 3))"
  by (simp add: ed_size_at_def unat_ed_buffer_size)

text \<open>
  Claim C4, as amended. In both drivers the wait-and-read-size operation polls
  \<^verbatim>\<open>DDA_STS\<close> until a poll sees bit 8 set, and never returns if none does. Then it
  decodes four bytes of the output buffer as a little-endian 32-bit size: the media
  driver once, the bytes at the offset it is given; the video driver up to 30 times, the
  bytes at offset 0. Only after that it reads \<^verbatim>\<open>DDA_STS\<close> and writes the value back with
  bit 8 set. That write is the media driver's last access; the video driver reads
  \<^verbatim>\<open>DDA_STS\<close> once more after it. The offset that the media driver's encode request
  passes is the value of \<^verbatim>\<open>HEX_RECT_OFFSET\<close> it read before programming the rectangle.
\<close>

theorem wait_and_read_size_amended:
  "(ready_after s n \<longrightarrow>
      npcm750_ece_get_ed_size s offset =
        Some (ed_size_at s (unat offset) (Suc n),
           s\<lparr>regs := (regs s)(DDA_STS := sts_hw s (length (trace s) + n + 2) OR CDREADY),
             trace := trace s @ replicate (Suc n) (Readl DDA_STS)
                      @ [ReadEd (unat offset), Readl DDA_STS,
                         Writel (sts_hw s (length (trace s) + n + 2) OR CDREADY) DDA_STS]\<rparr>)
      \<and> (\<exists>k<30. ece_get_ed_size s =
            Some (ed_size_at s 0 (Suc n + k),
                  s\<lparr>regs := (regs s)
                         (DDA_STS := sts_hw s (length (trace s) + n + k + 2) OR CDREADY),
                    trace := trace s @ replicate (Suc n) (Readl DDA_STS)
                       @ replicate (Suc k) (ReadEd 0)
                       @ [Readl DDA_STS,
                          Writel (sts_hw s (length (trace s) + n + k + 2) OR CDREADY) DDA_STS,
                          Readl DDA_STS]\<rparr>)))
   \<and> (ready_after (npcm750_ece_enc_rect (m\<lparr>trace := trace m @ [Readl HEX_RECT_OFFSET]\<rparr>)
                      (cmd_x d) (cmd_y d) (cmd_w d) (cmd_h d)) n \<longrightarrow>
        (\<exists>m1. npcm750_ece_ioctl m ECE_IOCGETED (Some d) True =
           Some (0, Out_Cmd (d\<lparr>cmd_gap_len :=
                     (if hex_ctrl_gap (regs m HEX_CTRL) = 0 then 4
                      else hex_ctrl_gap (regs m HEX_CTRL)),
                   cmd_len := ed_size_at
                     (npcm750_ece_enc_rect (m\<lparr>trace := trace m @ [Readl HEX_RECT_OFFSET]\<rparr>)
                        (cmd_x d) (cmd_y d) (cmd_w d) (cmd_h d))
                     (unat (regs m HEX_RECT_OFFSET)) (Suc n)\<rparr>), m1)))
   \<and> ((\<forall>i. \<not> bit (sts_hw s (length (trace s) + i)) 8) \<longrightarrow>
        npcm750_ece_get_ed_size s offset = None \<and> ece_get_ed_size s = None)
   \<and> bit (v OR CDREADY) 8
   \<and> unat (ed_size_at s off t) =
       unat (ed_hw s (length (trace s) + t) off)
       + 2 ^ 8 * unat (ed_hw s (length (trace s) + t) (off + 1))
       + 2 ^ 16 * unat (ed_hw s (length (trace s) + t) (off + 2))
       + 2 ^ 24 * unat (ed_hw s (length (trace s) + t) (off + 3))"
proof -
  have "\<exists>k<30. ece_get_ed_size s =
            Some (ed_size_at s 0 (Suc n + k),
                  s\<lparr>regs := (regs s)
                         (DDA_STS := sts_hw s (length (trace s) + n + k + 2) OR CDREADY),
                    trace := trace s @ replicate (Suc n) (Readl DDA_STS)
                       @ replicate (Suc k) (ReadEd 0)
                       @ [Readl DDA_STS,
                          Writel (sts_hw s (length (trace s) + n + k + 2) OR CDREADY) DDA_STS,
                          Readl DDA_STS]\<rparr>)"
    if "ready_after s n"
    using ece_get_ed_size_shape [OF that] by blast
  moreover have "\<exists>m1. npcm750_ece_ioctl m ECE_IOCGETED (Some d) True =
           Some (0, Out_Cmd (d\<lparr>cmd_gap_len :=
                     (if hex_ctrl_gap (regs m HEX_CTRL) = 0 then 4
                      else hex_ctrl_gap (regs m HEX_CTRL)),
                   cmd_len := ed_size_at
                     (npcm750_ece_enc_rect (m\<lparr>trace := trace m @ [Readl HEX_RECT_OFFSET]\<rparr>)
                        (cmd_x d) (cmd_y d) (cmd_w d) (cmd_h d))
                     (unat (regs m HEX_RECT_OFFSET)) (Suc n)\<rparr>), m1)"
    if r: "ready_after (npcm750_ece_enc_rect (m\<lparr>trace := trace m @ [Readl HEX_RECT_OFFSET]\<rparr>)
                      (cmd_x d) (cmd_y d) (cmd_w d) (cmd_h d)) n"
    using npcm750_ece_ioctl_geted
            [OF npcm750_ece_get_ed_size_ready [OF r, of "regs m HEX_RECT_OFFSET"], of True]
    by (simp add: Let_def)
  ultimately show ?thesis
    using npcm750_ece_get_ed_size_ready [of s n offset] unat_ed_size_at [of s off t]
      or_CDREADY_bit8 [of v] ece_get_ed_size_never [of s]
      npcm750_ece_get_ed_size_never [of s offset]
    by blast
qed

lemma example_dev_fields:
  "trace example_dev = []" "sts_hw example_dev 10 = 0x100"
  "ed_hw example_dev 9 = (\<lambda>i. 0)"
  by (simp_all add: example_dev_def)

theorem wait_and_read_size_amended_witness:
  "ready_after example_dev 8
   \<and> npcm750_ece_get_ed_size example_dev 0 =
        Some (0, example_dev\<lparr>regs := (regs example_dev)(DDA_STS := 0x100),
                  trace := replicate (Suc 8) (Readl DDA_STS)
                      @ [ReadEd 0, Readl DDA_STS, Writel 0x100 DDA_STS]\<rparr>)
   \<and> npcm750_ece_get_ed_size (example_dev\<lparr>sts_hw := \<lambda>n. 0\<rparr>) 0 = None
   \<and> ece_get_ed_size (example_dev\<lparr>sts_hw := \<lambda>n. 0\<rparr>) = None"
proof -
  note a = wait_and_read_size_amended [where s = example_dev and n = 8 and offset = 0]
  note b = wait_and_read_size_amended
             [where s = "example_dev\<lparr>sts_hw := \<lambda>n. 0\<rparr>" and offset = 0]
  have never: "\<forall>i. \<not> bit (sts_hw (example_dev\<lparr>sts_hw := \<lambda>n. 0\<rparr>)
                    (length (trace (example_dev\<lparr>sts_hw := \<lambda>n. 0\<rparr>)) + i)) 8"
    by simp
  from a [THEN conjunct1, THEN mp, OF example_dev_ready, THEN conjunct1]
  have "npcm750_ece_get_ed_size example_dev 0 =
        Some (0, example_dev\<lparr>regs := (regs example_dev)(DDA_STS := 0x100),
                  trace := replicate (Suc 8) (Readl DDA_STS)
                      @ [ReadEd 0, Readl DDA_STS, Writel 0x100 DDA_STS]\<rparr>)"
    by (simp add: example_dev_fields ed_size_at_def ed_buffer_size_def CDREADY_def)
  moreover note b [THEN conjunct2, THEN conjunct2, THEN conjunct1, THEN mp, OF never]
  ultimately show ?thesis using example_dev_ready never by blast
qed

text \<open>
  Claim C4 as stated, on the media driver (the one that reads at the offset it is
  given): run on the example device, the write that clears the ready bit is its last
  access; no read of the status register follows it.
\<close>

theorem wait_and_read_size_counterexample:
  "npcm750_ece_get_ed_size example_dev 0 =
     Some (0, example_dev\<lparr>regs := (regs example_dev)(DDA_STS := 0x100),
                trace := replicate 9 (Readl DDA_STS)
                         @ [ReadEd 0, Readl DDA_STS, Writel 0x100 DDA_STS]\<rparr>)
   \<and> last (replicate 9 (Readl DDA_STS) @ [ReadEd 0, Readl DDA_STS, Writel 0x100 DDA_STS])
       \<noteq> Readl DDA_STS"
  using npcm750_ece_get_ed_size_ready [OF example_dev_ready, of 0]
  by (simp add: example_dev_fields ed_size_at_def ed_buffer_size_def CDREADY_def)

text \<open>
  Claim C7. Whenever an \<^verbatim>\<open>ECE_IOCGETED\<close> request of either driver returns a result to
  the caller, the result's \<open>gap_len\<close> is 4 if the gap field (bits 8..12) of \<^verbatim>\<open>HEX_CTRL\<close> is
  0, and that field's value otherwise; programming the rectangle and waiting for the
  engine do not change the register. Such a request does return as soon as the engine
  raises the ready bit at some poll.
\<close>

theorem gap_length_default:
  "(drv_ioctl s ECE_IOCGETED (Some d) True = Some (err, out, s') \<longrightarrow>
      (\<exists>ed. out = Out_Cmd (d\<lparr>cmd_gap_len :=
                 (if hex_ctrl_gap (regs s HEX_CTRL) = 0 then 4
                  else hex_ctrl_gap (regs s HEX_CTRL)), cmd_len := ed\<rparr>)))
   \<and> (npcm750_ece_ioctl m ECE_IOCGETED (Some d) True = Some (err, out, m') \<longrightarrow>
      (\<exists>ed. out = Out_Cmd (d\<lparr>cmd_gap_len :=
                 (if hex_ctrl_gap (regs m HEX_CTRL) = 0 then 4
                  else hex_ctrl_gap (regs m HEX_CTRL)), cmd_len := ed\<rparr>)))
   \<and> (ready_after (ece_enc_rect s (cmd_x d) (cmd_y d) (cmd_w d) (cmd_h d)) n \<longrightarrow>
      (\<exists>ed s1. drv_ioctl s ECE_IOCGETED (Some d) True =
         Some (0, Out_Cmd (d\<lparr>cmd_gap_len :=
                 (if hex_ctrl_gap (regs s HEX_CTRL) = 0 then 4
                  else hex_ctrl_gap (regs s HEX_CTRL)), cmd_len := ed\<rparr>), s1)))
   \<and> (ready_after (npcm750_ece_enc_rect (m\<lparr>trace := trace m @ [Readl HEX_RECT_OFFSET]\<rparr>)
                      (cmd_x d) (cmd_y d) (cmd_w d) (cmd_h d)) n \<longrightarrow>
      (\<exists>ed m1. npcm750_ece_ioctl m ECE_IOCGETED (Some d) True =
         Some (0, Out_Cmd (d\<lparr>cmd_gap_len :=
                 (if hex_ctrl_gap (regs m HEX_CTRL) = 0 then 4
                  else hex_ctrl_gap (regs m HEX_CTRL)), cmd_len := ed\<rparr>), m1)))"
proof (intro conjI impI)
  assume a: "drv_ioctl s ECE_IOCGETED (Some d) True = Some (err, out, s')"
  from drv_ioctl_geted_Some [OF a] obtain sz e where
    "ece_get_ed_size (ece_enc_rect s (cmd_x d) (cmd_y d) (cmd_w d) (cmd_h d)) = Some (sz, e)"
    by blast
  from drv_ioctl_geted [OF this, of True] a
  show "\<exists>ed. out = Out_Cmd (d\<lparr>cmd_gap_len :=
                 (if hex_ctrl_gap (regs s HEX_CTRL) = 0 then 4
                  else hex_ctrl_gap (regs s HEX_CTRL)), cmd_len := ed\<rparr>)"
    by (auto simp add: Let_def)
next
  assume a: "npcm750_ece_ioctl m ECE_IOCGETED (Some d) True = Some (err, out, m')"
  from npcm750_ece_ioctl_geted_Some [OF a] obtain sz e where
    "npcm750_ece_get_ed_size
             (npcm750_ece_enc_rect (m\<lparr>trace := trace m @ [Readl HEX_RECT_OFFSET]\<rparr>)
                (cmd_x d) (cmd_y d) (cmd_w d) (cmd_h d))
             (regs m HEX_RECT_OFFSET) = Some (sz, e)"
    by blast
  from npcm750_ece_ioctl_geted [OF this, of True] a
  show "\<exists>ed. out = Out_Cmd (d\<lparr>cmd_gap_len :=
                 (if hex_ctrl_gap (regs m HEX_CTRL) = 0 then 4
                  else hex_ctrl_gap (regs m HEX_CTRL)), cmd_len := ed\<rparr>)"
    by (auto simp add: Let_def)
next
  assume "ready_after (ece_enc_rect s (cmd_x d) (cmd_y d) (cmd_w d) (cmd_h d)) n"
  from ece_get_ed_size_shape [OF this] obtain sz e where
    "ece_get_ed_size (ece_enc_rect s (cmd_x d) (cmd_y d) (cmd_w d) (cmd_h d)) = Some (sz, e)"
    by blast
  from drv_ioctl_geted [OF this, of True]
  show "\<exists>ed s1. drv_ioctl s ECE_IOCGETED (Some d) True =
         Some (0, Out_Cmd (d\<lparr>cmd_gap_len :=
                 (if hex_ctrl_gap (regs s HEX_CTRL) = 0 then 4
                  else hex_ctrl_gap (regs s HEX_CTRL)), cmd_len := ed\<rparr>), s1)"
    by (auto simp add: Let_def)
next
  assume "ready_after (npcm750_ece_enc_rect (m\<lparr>trace := trace m @ [Readl HEX_RECT_OFFSET]\<rparr>)
                      (cmd_x d) (cmd_y d) (cmd_w d) (cmd_h d)) n"
  from npcm750_ece_get_ed_size_ready [OF this, of "regs m HEX_RECT_OFFSET"]
  obtain sz e where
    "npcm750_ece_get_ed_size
             (npcm750_ece_enc_rect (m\<lparr>trace := trace m @ [Readl HEX_RECT_OFFSET]\<rparr>)
                (cmd_x d) (cmd_y d) (cmd_w d) (cmd_h d))
             (regs m HEX_RECT_OFFSET) = Some (sz, e)"
    by blast
  from npcm750_ece_ioctl_geted [OF this, of True]
  show "\<exists>ed m1. npcm750_ece_ioctl m ECE_IOCGETED (Some d) True =
         Some (0, Out_Cmd (d\<lparr>cmd_gap_len :=
                 (if hex_ctrl_gap (regs m HEX_CTRL) = 0 then 4
                  else hex_ctrl_gap (regs m HEX_CTRL)), cmd_len := ed\<rparr>), m1)"
    by (auto simp add: Let_def)
qed

theorem gap_length_default_witness:
  "hex_ctrl_gap (regs example_dev HEX_CTRL) = 6
   \<and> (\<exists>ed s1. drv_ioctl example_dev ECE_IOCGETED (Some example_cmd) True =
         Some (0, Out_Cmd (example_cmd\<lparr>cmd_gap_len := 6, cmd_len := ed\<rparr>), s1))
   \<and> (\<exists>ed m1. npcm750_ece_ioctl example_dev ECE_IOCGETED (Some example_cmd) True =
         Some (0, Out_Cmd (example_cmd\<lparr>cmd_gap_len := 6, cmd_len := ed\<rparr>), m1))"
proof -
  note t = gap_length_default [of example_dev example_cmd _ _ _ example_dev]
  from t [THEN conjunct2, THEN conjunct2, THEN conjunct1, THEN mp, OF example_enc_rect_ready]
  have v: "\<exists>ed s1. drv_ioctl example_dev ECE_IOCGETED (Some example_cmd) True =
         Some (0, Out_Cmd (example_cmd\<lparr>cmd_gap_len := 6, cmd_len := ed\<rparr>), s1)"
    by (simp add: example_gap)
  from t [THEN conjunct2, THEN conjunct2, THEN conjunct2, THEN mp,
          OF example_npcm750_enc_rect_ready]
  have m: "\<exists>ed m1. npcm750_ece_ioctl example_dev ECE_IOCGETED (Some example_cmd) True =
         Some (0, Out_Cmd (example_cmd\<lparr>cmd_gap_len := 6, cmd_len := ed\<rparr>), m1)"
    by (simp add: example_gap)
  from v m example_gap show ?thesis by blast
qed

end
